theory Spec2Isabelle
  imports
    Complex_Main
    "HOL-Library.Multiset"
    "HOL-Library.Option_ord"
    "HOL-Library.Product_Lexorder"
    "HOL-Library.List_Lexorder"
    "HOL-Library.Char_ord"
begin

section \<open>The monthly banking ETL job (src/Glue/etl.py)\<close>

text \<open>
  The job is one Python script. Its own control flow (argument check, exception handlers,
  loops, local variables, call arities, path and date arithmetic) is embedded as it is
  written. What it calls in the Spark engine, the secret store, the relational source and
  the object store is not part of the script: each such call is a field of the record
  \<open>env\<close> that either yields a value or raises, and every call is recorded in the world
  state. The relational operators the script applies to data frames (inner join, sort,
  derived column, window aggregate, filter, projection) are given their documented meaning
  on an explicit frame of named columns and rows. The engine computes averages in doubles:
  a sum or a quotient is the exact one rounded to a double, and which double that is
  (the nearest one, or an infinity on overflow) is a field of \<open>env\<close> too.
\<close>

subsection \<open>Values, exceptions and the world state\<close>

datatype date = Date (year: nat) (month: nat) (day: nat)

datatype exn =
    ValueError string
  | TypeError string
  | UnboundLocalError string
  | AttributeError string
  | IllegalMonthError nat
  | AnalysisException string
  | ExternalError string

text \<open>A double: a finite value, an infinity or not-a-number.\<close>

datatype double = Finite rat | PosInf | NegInf | NaN

datatype cell = Null | Str string | DateV date | Dbl double

record frame =
  columns :: "string list"
  rows :: "cell list list"

datatype session = SparkSession

datatype pyval = SessionV session | StrV string

datatype log_entry = Info string | Error string | Exception exn

record aurora_properties =
  user :: "string option"
  password :: "string option"
  driver :: string
  url :: string

text \<open>The query of lines 51-55, kept as the three holes of its f-string.\<close>

record sql_query =
  from_table :: string
  date_from :: date
  date_before :: date

datatype call =
    GlueContextCall
  | SparkSessionCall
  | SecretsManagerCall string
  | JdbcLoadCall aurora_properties sql_query
  | S3ReadCall string
  | S3WriteCall string
  | SparkStopCall

text \<open>An object of the store: a CSV file, written with or without a header line.\<close>

record csv_object =
  with_header :: bool
  data :: frame

record world =
  logged :: "log_entry list"
  calls :: "call list"
  s3 :: "string \<Rightarrow> csv_object option"

text \<open>What the script's collaborators answer. \<open>dataframe_with_error\<close> says what a \<^verbatim>\<open>with\<close>
  statement does on a loaded frame: \<open>Some e\<close> when the frame has no \<^verbatim>\<open>__enter__\<close> and
  \<^verbatim>\<open>__exit__\<close>, as a pyspark DataFrame (the interpreter then raises \<open>e\<close>, an AttributeError
  before Python 3.11 and a TypeError from 3.11 on), \<open>None\<close> when it has both.
  \<open>round_double\<close> is the double that an exact result is rounded to.\<close>

record env =
  import_now :: date
  glue_argv :: "exn + string list"
  spark_session :: "exn + session"
  get_secret_value :: "string \<Rightarrow> exn + string option"
  json_loads :: "string \<Rightarrow> exn + (string \<Rightarrow> string option)"
  main_now :: date
  jdbc_table :: "aurora_properties \<Rightarrow> string \<Rightarrow> exn + frame"
  dataframe_with_error :: "exn option"
  s3_write_error :: "string \<Rightarrow> exn option"
  s3_read_csv :: "string \<Rightarrow> exn + frame"
  transform_now :: date
  to_date :: "string \<Rightarrow> date option"
  cast_double :: "string \<Rightarrow> double option"
  round_double :: "rat \<Rightarrow> double"
  repr_double :: "double \<Rightarrow> string"
  spark_stop_error :: "exn option"

subsection \<open>Statements that may raise\<close>

type_synonym 'a io = "world \<Rightarrow> (exn + 'a) \<times> world"

definition io_return :: "'a \<Rightarrow> 'a io" where
  "io_return x \<sigma> = (Inr x, \<sigma>)"

definition io_raise :: "exn \<Rightarrow> 'a io" where
  "io_raise e \<sigma> = (Inl e, \<sigma>)"

definition io_lift :: "exn + 'a \<Rightarrow> 'a io" where
  "io_lift r \<sigma> = (r, \<sigma>)"

definition io_bind :: "'a io \<Rightarrow> ('a \<Rightarrow> 'b io) \<Rightarrow> 'b io" where
  "io_bind m f \<sigma> = (case m \<sigma> of (Inl e, \<sigma>') \<Rightarrow> (Inl e, \<sigma>') | (Inr x, \<sigma>') \<Rightarrow> f x \<sigma>')"

text \<open>\<^verbatim>\<open>try: m  except Exception as e: h e\<close>\<close>

definition try_except :: "'a io \<Rightarrow> (exn \<Rightarrow> 'a io) \<Rightarrow> 'a io" where
  "try_except m h \<sigma> = (case m \<sigma> of (Inl e, \<sigma>') \<Rightarrow> h e \<sigma>' | (Inr x, \<sigma>') \<Rightarrow> (Inr x, \<sigma>'))"

text \<open>\<^verbatim>\<open>try: m  finally: f\<close>: \<open>f\<close> runs on both exits and the outcome of \<open>m\<close> stands
  unless \<open>f\<close> itself raises.\<close>

definition try_finally :: "'a io \<Rightarrow> unit io \<Rightarrow> 'a io" where
  "try_finally m f \<sigma> =
     (case m \<sigma> of (r, \<sigma>') \<Rightarrow>
        (case f \<sigma>' of (Inl e, \<sigma>'') \<Rightarrow> (Inl e, \<sigma>'') | (Inr u, \<sigma>'') \<Rightarrow> (r, \<sigma>'')))"

definition logger_info :: "string \<Rightarrow> unit io" where
  "logger_info msg \<sigma> = (Inr (), \<sigma>\<lparr>logged := logged \<sigma> @ [Info msg]\<rparr>)"

definition logger_error :: "string \<Rightarrow> unit io" where
  "logger_error msg \<sigma> = (Inr (), \<sigma>\<lparr>logged := logged \<sigma> @ [Error msg]\<rparr>)"

definition logger_exception :: "exn \<Rightarrow> unit io" where
  "logger_exception e \<sigma> = (Inr (), \<sigma>\<lparr>logged := logged \<sigma> @ [Exception e]\<rparr>)"

text \<open>A call that leaves the script: it is recorded, then answers or raises.\<close>

definition external :: "call \<Rightarrow> exn + 'a \<Rightarrow> 'a io" where
  "external c r \<sigma> = (r, \<sigma>\<lparr>calls := calls \<sigma> @ [c]\<rparr>)"

subsection \<open>Dates and their formats\<close>

definition date_key :: "date \<Rightarrow> nat \<times> nat \<times> nat" where
  "date_key d = (year d, month d, day d)"

text \<open>\<^verbatim>\<open>calendar.isleap\<close>, \<^verbatim>\<open>calendar.mdays\<close> and the day count of
  \<^verbatim>\<open>calendar.monthrange\<close> (the script drops the weekday).\<close>

definition isleap :: "nat \<Rightarrow> bool" where
  "isleap y = (y mod 4 = 0 \<and> (y mod 100 \<noteq> 0 \<or> y mod 400 = 0))"

definition mdays :: "nat list" where
  "mdays = [0, 31, 28, 31, 30, 31, 30, 31, 31, 30, 31, 30, 31]"

definition monthrange :: "nat \<Rightarrow> nat \<Rightarrow> exn + nat" where
  "monthrange y m =
     (if 1 \<le> m \<and> m \<le> 12
      then Inr (mdays ! m + (if m = 2 \<and> isleap y then 1 else 0))
      else Inl (IllegalMonthError m))"

text \<open>\<^verbatim>\<open>d.replace(day=n)\<close> raises ValueError when the new date does not exist.\<close>

definition replace_day :: "date \<Rightarrow> nat \<Rightarrow> exn + date" where
  "replace_day d n =
     (case monthrange (year d) (month d) of
        Inl e \<Rightarrow> Inl (ValueError ''month must be in 1..12'')
      | Inr ndays \<Rightarrow>
          if 1 \<le> n \<and> n \<le> ndays then Inr (Date (year d) (month d) n)
          else Inl (ValueError ''day is out of range for month''))"


definition digit_char :: "nat \<Rightarrow> char" where
  "digit_char n = ''0123456789'' ! (n mod 10)"

fun decimal :: "nat \<Rightarrow> string" where
  "decimal n = (if n < 10 then [digit_char n] else decimal (n div 10) @ [digit_char n])"

declare decimal.simps [simp del]

definition zero_pad :: "nat \<Rightarrow> nat \<Rightarrow> string" where
  "zero_pad w n = replicate (w - length (decimal n)) (CHR ''0'') @ decimal n"

text \<open>\<^verbatim>\<open>strftime('%Y%m')\<close> and \<^verbatim>\<open>strftime('%Y%m%d')\<close>.\<close>

definition strftime_Ym :: "date \<Rightarrow> string" where
  "strftime_Ym d = zero_pad 4 (year d) @ zero_pad 2 (month d)"

definition strftime_Ymd :: "date \<Rightarrow> string" where
  "strftime_Ymd d = zero_pad 4 (year d) @ zero_pad 2 (month d) @ zero_pad 2 (day d)"

text \<open>\<^verbatim>\<open>str\<close> of a date.\<close>

definition isoformat :: "date \<Rightarrow> string" where
  "isoformat d = zero_pad 4 (year d) @ ''-'' @ zero_pad 2 (month d) @ ''-'' @ zero_pad 2 (day d)"

subsection \<open>Module globals (lines 20-23)\<close>

definition s3_base_path :: string where
  "s3_base_path = ''s3a://banking_data''"

definition landing :: string where
  "landing = ''bronze''"

definition transform :: string where
  "transform = ''silver''"

definition year_month :: "env \<Rightarrow> string" where
  "year_month env = strftime_Ym (import_now env)"

subsection \<open>Frames\<close>

text \<open>Name resolution: a name denotes a column when exactly one column carries it (names
  are compared as they are written).\<close>

definition resolve :: "string list \<Rightarrow> string \<Rightarrow> exn + nat" where
  "resolve cols name =
     (case filter (\<lambda>i. cols ! i = name) [0..<length cols] of
        [] \<Rightarrow> Inl (AnalysisException (''cannot resolve '' @ name))
      | [i] \<Rightarrow> Inr i
      | i # j # others \<Rightarrow> Inl (AnalysisException (''ambiguous reference '' @ name)))"

definition cell_at :: "cell list \<Rightarrow> nat \<Rightarrow> cell" where
  "cell_at r i = (if i < length r then r ! i else Null)"

definition sum_bind :: "exn + 'a \<Rightarrow> ('a \<Rightarrow> exn + 'b) \<Rightarrow> exn + 'b" where
  "sum_bind r f = (case r of Inl e \<Rightarrow> Inl e | Inr x \<Rightarrow> f x)"

text \<open>SQL equality: NULL equals nothing.\<close>

definition sql_eq :: "cell \<Rightarrow> cell \<Rightarrow> bool" where
  "sql_eq a b = (a \<noteq> Null \<and> b \<noteq> Null \<and> a = b)"

text \<open>Ascending order of a column: NULL first, then the values of the column's type; among
  doubles the negative infinity comes first and not-a-number last.\<close>

definition double_key :: "double \<Rightarrow> nat \<times> rat" where
  "double_key x = (case x of NegInf \<Rightarrow> (0, 0) | Finite q \<Rightarrow> (1, q) | PosInf \<Rightarrow> (2, 0) | NaN \<Rightarrow> (3, 0))"

definition cell_key ::
  "cell \<Rightarrow> string option \<times> (nat \<times> nat \<times> nat) option \<times> (nat \<times> rat) option" where
  "cell_key c =
     (case c of
        Null \<Rightarrow> (None, None, None)
      | Str s \<Rightarrow> (Some s, None, None)
      | DateV d \<Rightarrow> (None, Some (date_key d), None)
      | Dbl x \<Rightarrow> (None, None, Some (double_key x)))"

text \<open>A row read from CSV has one cell per header name: short rows are padded with NULL,
  long rows are cut.\<close>

definition normalise :: "frame \<Rightarrow> frame" where
  "normalise df =
     df\<lparr>rows := map (\<lambda>r. take (length (columns df)) (r @ replicate (length (columns df)) Null))
                    (rows df)\<rparr>"

text \<open>\<^verbatim>\<open>l.join(r, on)\<close>: the default join type is inner.\<close>

definition inner_join :: "frame \<Rightarrow> frame \<Rightarrow> (cell list \<Rightarrow> cell list \<Rightarrow> bool) \<Rightarrow> frame" where
  "inner_join l r on =
     \<lparr>columns = columns l @ columns r,
      rows = concat (map (\<lambda>a. map (\<lambda>b. a @ b) (filter (on a) (rows r))) (rows l))\<rparr>"

definition orderBy :: "frame \<Rightarrow> string \<Rightarrow> exn + frame" where
  "orderBy df name =
     sum_bind (resolve (columns df) name) (\<lambda>i.
       Inr (df\<lparr>rows := sort_key (\<lambda>r. cell_key (cell_at r i)) (rows df)\<rparr>))"

text \<open>\<^verbatim>\<open>withColumn\<close> replaces the columns of that name, or adds one at the end.\<close>

definition put_column :: "string list \<Rightarrow> string \<Rightarrow> cell list \<Rightarrow> cell \<Rightarrow> cell list" where
  "put_column cols name r v =
     (if name \<in> set cols
      then map (\<lambda>i. if cols ! i = name then v else cell_at r i) [0..<length cols]
      else r @ [v])"

definition withColumn :: "frame \<Rightarrow> string \<Rightarrow> (cell list \<times> cell) list \<Rightarrow> frame" where
  "withColumn df name valued =
     \<lparr>columns = (if name \<in> set (columns df) then columns df else columns df @ [name]),
      rows = map (\<lambda>(r, v). put_column (columns df) name r v) valued\<rparr>"

fun resolve_all :: "string list \<Rightarrow> string list \<Rightarrow> exn + nat list" where
  "resolve_all cols [] = Inr []"
| "resolve_all cols (name # names) =
     sum_bind (resolve cols name) (\<lambda>i. sum_bind (resolve_all cols names) (\<lambda>others. Inr (i # others)))"

definition select :: "frame \<Rightarrow> string list \<Rightarrow> exn + frame" where
  "select df names =
     sum_bind (resolve_all (columns df) names) (\<lambda>idx.
       Inr \<lparr>columns = names, rows = map (\<lambda>r. map (cell_at r) idx) (rows df)\<rparr>)"

definition filter_eq :: "frame \<Rightarrow> string \<Rightarrow> cell \<Rightarrow> exn + frame" where
  "filter_eq df name v =
     (case resolve (columns df) name of
        Inl e \<Rightarrow> Inl (AttributeError name)
      | Inr i \<Rightarrow> Inr (df\<lparr>rows := filter (\<lambda>r. sql_eq (cell_at r i) v) (rows df)\<rparr>))"

subsection \<open>Window aggregate\<close>

definition partitionBy :: "('r \<Rightarrow> 'k) \<Rightarrow> 'r list \<Rightarrow> 'r list list" where
  "partitionBy part rs = map (\<lambda>k. filter (\<lambda>r. part r = k) rs) (remdups (map part rs))"

text \<open>\<^verbatim>\<open>rowsBetween(lo, hi)\<close>: the frame of the row at position \<open>i\<close> of an ordered
  partition holds the positions \<open>i + lo\<close> to \<open>i + hi\<close> that exist.\<close>

definition rowsBetween :: "int \<Rightarrow> int \<Rightarrow> 'r list \<Rightarrow> nat \<Rightarrow> 'r list" where
  "rowsBetween lo hi p i =
     (let first = nat (max 0 (int i + lo));
          stop = nat (min (int (length p)) (int i + hi + 1))
      in take (stop - first) (drop first p))"

fun non_null :: "'a option list \<Rightarrow> 'a list" where
  "non_null [] = []"
| "non_null (None # vs) = non_null vs"
| "non_null (Some v # vs) = v # non_null vs"

text \<open>Addition of two doubles, and division of a double by a count: on finite values the
  exact result rounded; an infinity absorbs finite values, and opposite infinities add up
  to not-a-number. (\<^verbatim>\<open>F.avg\<close> is NULL for a count of zero and does not divide then.)\<close>

fun double_add :: "env \<Rightarrow> double \<Rightarrow> double \<Rightarrow> double" where
  "double_add env (Finite x) (Finite y) = round_double env (x + y)"
| "double_add env NaN b = NaN"
| "double_add env a NaN = NaN"
| "double_add env PosInf NegInf = NaN"
| "double_add env NegInf PosInf = NaN"
| "double_add env PosInf b = PosInf"
| "double_add env a PosInf = PosInf"
| "double_add env NegInf b = NegInf"
| "double_add env a NegInf = NegInf"

fun double_div :: "env \<Rightarrow> double \<Rightarrow> nat \<Rightarrow> double" where
  "double_div env (Finite x) n =
     (if n = 0 then (if x = 0 then NaN else if 0 < x then PosInf else NegInf)
      else round_double env (x / of_nat n))"
| "double_div env PosInf n = PosInf"
| "double_div env NegInf n = NegInf"
| "double_div env NaN n = NaN"

text \<open>\<^verbatim>\<open>F.avg\<close> over the rows of a frame: the values that are not NULL are added, in the order
  of the frame, to the double zero, and the sum is divided by their number, all in the
  engine's arithmetic; NULL when every value is NULL.\<close>

definition avg :: "env \<Rightarrow> double option list \<Rightarrow> double option" where
  "avg env vs =
     (case non_null vs of
        [] \<Rightarrow> None
      | x # xs \<Rightarrow>
          Some (double_div env (foldl (double_add env) (Finite 0) (x # xs)) (length (x # xs))))"

definition over_window ::
  "('r \<Rightarrow> 'k) \<Rightarrow> ('r \<Rightarrow> 'o::linorder) \<Rightarrow> int \<Rightarrow> int \<Rightarrow> ('r list \<Rightarrow> 'v) \<Rightarrow> 'r list \<Rightarrow> ('r \<times> 'v) list" where
  "over_window part ord lo hi agg rs =
     concat (map (\<lambda>p0. let p = sort_key ord p0
                        in map (\<lambda>i. (p ! i, agg (rowsBetween lo hi p i))) [0..<length p])
                 (partitionBy part rs))"

subsection \<open>Calls into the relational source, the object store and the engine\<close>

text \<open>The WHERE clause of lines 54: \<^verbatim>\<open>date_column >= start AND date_column < end\<close>. A row
  whose \<^verbatim>\<open>date_column\<close> is NULL satisfies neither comparison.\<close>

definition in_window :: "sql_query \<Rightarrow> cell \<Rightarrow> bool" where
  "in_window q c =
     (case c of
        DateV d \<Rightarrow> date_key (date_from q) \<le> date_key d \<and> date_key d < date_key (date_before q)
      | Null \<Rightarrow> False
      | Str s \<Rightarrow> False
      | Dbl x \<Rightarrow> False)"

definition run_query :: "frame \<Rightarrow> sql_query \<Rightarrow> exn + frame" where
  "run_query t q =
     (case resolve (columns t) ''date_column'' of
        Inl e \<Rightarrow> Inl (ExternalError ''unknown column date_column'')
      | Inr i \<Rightarrow> Inr (t\<lparr>rows := filter (\<lambda>r. in_window q (cell_at r i)) (rows t)\<rparr>))"

text \<open>Lines 59-66: the JDBC read of the subquery.\<close>

definition jdbc_result :: "env \<Rightarrow> aurora_properties \<Rightarrow> sql_query \<Rightarrow> exn + frame" where
  "jdbc_result env props q = sum_bind (jdbc_table env props (from_table q)) (\<lambda>t. run_query t q)"

definition jdbc_load :: "env \<Rightarrow> aurora_properties \<Rightarrow> sql_query \<Rightarrow> frame io" where
  "jdbc_load env props q = external (JdbcLoadCall props q) (jdbc_result env props q)"

text \<open>\<^verbatim>\<open>df.write.mode('overwrite').csv(path, header=h)\<close> (\<open>h\<close> is false when not given):
  the object at the path becomes the frame.\<close>

definition csv_write_overwrite :: "env \<Rightarrow> string \<Rightarrow> bool \<Rightarrow> frame \<Rightarrow> unit io" where
  "csv_write_overwrite env path h df \<sigma> =
     (case s3_write_error env path of
        Some e \<Rightarrow> (Inl e, \<sigma>\<lparr>calls := calls \<sigma> @ [S3WriteCall path]\<rparr>)
      | None \<Rightarrow> (Inr (), \<sigma>\<lparr>calls := calls \<sigma> @ [S3WriteCall path],
                           s3 := (s3 \<sigma>)(path \<mapsto> \<lparr>with_header = h, data = df\<rparr>)\<rparr>))"

definition py_str :: "pyval \<Rightarrow> string" where
  "py_str v = (case v of StrV s \<Rightarrow> s | SessionV s \<Rightarrow> ''<pyspark.sql.session.SparkSession object>'')"

text \<open>\<^verbatim>\<open>spark.read.option('header', 'true').csv(path)\<close>\<close>

definition spark_read_csv :: "env \<Rightarrow> pyval \<Rightarrow> string \<Rightarrow> frame io" where
  "spark_read_csv env spark path =
     (case spark of
        StrV s \<Rightarrow> io_raise (AttributeError ''read'')
      | SessionV s \<Rightarrow>
          external (S3ReadCall path) (sum_bind (s3_read_csv env path) (\<lambda>df. Inr (normalise df))))"

text \<open>\<^verbatim>\<open>spark.stop()\<close>\<close>

definition spark_stop :: "env \<Rightarrow> session \<Rightarrow> unit io" where
  "spark_stop env spark =
     external SparkStopCall (case spark_stop_error env of Some e \<Rightarrow> Inl e | None \<Rightarrow> Inr ())"

subsection \<open>\<^verbatim>\<open>get_secrets\<close> and \<^verbatim>\<open>create_spark_session\<close> (lines 25-46)\<close>

definition get_secrets :: "env \<Rightarrow> string \<Rightarrow> (string \<Rightarrow> string option) io" where
  "get_secrets env secret_name =
     try_except
       (io_bind (external (SecretsManagerCall secret_name) (get_secret_value env secret_name))
          (\<lambda>secret_data.
             case secret_data of
               None \<Rightarrow> io_raise (ValueError ''Failed to retrieve secrets from AWS Secrets Manager.'')
             | Some secret_text \<Rightarrow>
                 if secret_text = []
                 then io_raise (ValueError ''Failed to retrieve secrets from AWS Secrets Manager.'')
                 else io_lift (json_loads env secret_text)))
       (\<lambda>e. io_bind (logger_error ''Error while retrieving secrets from AWS Secrets Manager.'') (\<lambda>u.
             io_bind (logger_exception e) (\<lambda>u.
             io_raise e)))"

definition create_spark_session :: "env \<Rightarrow> session io" where
  "create_spark_session env =
     try_except
       (external SparkSessionCall (spark_session env))
       (\<lambda>e. io_bind (logger_error ''Failed to create SparkSession.'') (\<lambda>u.
             io_bind (logger_exception e) (\<lambda>u.
             io_raise e)))"

subsection \<open>\<^verbatim>\<open>extract_monthly_data\<close> (lines 48-82)\<close>

definition s3_output_path :: "env \<Rightarrow> string \<Rightarrow> string" where
  "s3_output_path env table_name =
     s3_base_path @ ''/'' @ landing @ ''/'' @ table_name @ ''/'' @ year_month env @ ''/''
       @ table_name @ ''_monthly_data_extract.csv''"

text \<open>\<^verbatim>\<open>with loaded as df: body\<close> (lines 59-66) on the frame that \<^verbatim>\<open>load()\<close> returned. On a
  frame without \<^verbatim>\<open>__enter__\<close> and \<^verbatim>\<open>__exit__\<close> the statement raises and the body does not
  run; where the frame has both they are taken to hand the frame over and to do nothing
  else.\<close>

definition with_frame :: "env \<Rightarrow> frame \<Rightarrow> (frame \<Rightarrow> 'a io) \<Rightarrow> 'a io" where
  "with_frame env loaded body =
     (case dataframe_with_error env of Some e \<Rightarrow> io_raise e | None \<Rightarrow> body loaded)"

definition extract_monthly_data ::
  "env \<Rightarrow> session \<Rightarrow> aurora_properties \<Rightarrow> string \<Rightarrow> date \<Rightarrow> date \<Rightarrow> unit io" where
  "extract_monthly_data env spark aurora_properties table_name start_date end_date =
     try_finally
       (try_except
          (io_bind (io_return \<lparr>from_table = table_name, date_from = start_date,
                               date_before = end_date\<rparr>) (\<lambda>sql_query.
           io_bind (logger_info (''Starting data extraction process for table: '' @ table_name)) (\<lambda>u.
           io_bind (jdbc_load env aurora_properties sql_query) (\<lambda>loaded.
           with_frame env loaded (\<lambda>df.
             io_bind (logger_info ''Data loaded successfully from Aurora.'') (\<lambda>u.
             io_bind (csv_write_overwrite env (s3_output_path env table_name) False df) (\<lambda>u.
             logger_info ''Data saved successfully to S3.'')))))))
          (\<lambda>e. io_bind (logger_error (''An error occurred during data extraction for table: ''
                                        @ table_name)) (\<lambda>u.
                io_bind (logger_exception e) (\<lambda>u.
                io_raise e))))
       (logger_info (''Data extraction process completed for table: '' @ table_name))"

subsection \<open>\<^verbatim>\<open>transform_monthly_data\<close> (lines 84-129)\<close>

text \<open>Lines 97-100.\<close>

definition join_tables :: "frame \<Rightarrow> frame \<Rightarrow> frame \<Rightarrow> frame \<Rightarrow> frame \<Rightarrow> exn + frame" where
  "join_tables df1 df2 df3 df4 df5 =
     sum_bind (resolve (columns df1) ''idBank'') (\<lambda>idBank.
     sum_bind (resolve (columns df2) ''Bank_idBank'') (\<lambda>Bank_idBank.
     sum_bind (resolve (columns df1) ''idBranch'') (\<lambda>idBranch.
     sum_bind (resolve (columns df3) ''Branch_idBranch'') (\<lambda>Branch_idBranch.
     sum_bind (resolve (columns df1) ''idClient'') (\<lambda>idClient.
     sum_bind (resolve (columns df4) ''Client_idClient'') (\<lambda>Client_idClient.
     sum_bind (resolve (columns df1) ''idAccount'') (\<lambda>idAccount.
     sum_bind (resolve (columns df5) ''Account_idAccount'') (\<lambda>Account_idAccount.
       Inr (inner_join
             (inner_join
               (inner_join
                 (inner_join df1 df2 (\<lambda>a b. sql_eq (cell_at a idBank) (cell_at b Bank_idBank)))
                 df3 (\<lambda>a b. sql_eq (cell_at a idBranch) (cell_at b Branch_idBranch)))
               df4 (\<lambda>a b. sql_eq (cell_at a idClient) (cell_at b Client_idClient)))
             df5 (\<lambda>a b. sql_eq (cell_at a idAccount) (cell_at b Account_idAccount)))))))))))"

text \<open>Line 106.\<close>

definition with_loan_date :: "env \<Rightarrow> frame \<Rightarrow> exn + frame" where
  "with_loan_date env joined_df =
     sum_bind (resolve (columns joined_df) ''year_month'') (\<lambda>ym.
       Inr (withColumn joined_df ''loan_date''
              (map (\<lambda>r. (r, case cell_at r ym of
                               Str s \<Rightarrow> (case to_date env s of Some d \<Rightarrow> DateV d | None \<Rightarrow> Null)
                             | Null \<Rightarrow> Null
                             | DateV d \<Rightarrow> DateV d
                             | Dbl x \<Rightarrow> Null))
                   (rows joined_df))))"

text \<open>The value of a cell as a double (a string is cast, and is NULL when the cast fails).\<close>

definition cell_double :: "env \<Rightarrow> cell \<Rightarrow> double option" where
  "cell_double env c =
     (case c of Str s \<Rightarrow> cast_double env s | Dbl x \<Rightarrow> Some x | Null \<Rightarrow> None | DateV d \<Rightarrow> None)"

definition double_cell :: "double option \<Rightarrow> cell" where
  "double_cell v = (case v of None \<Rightarrow> Null | Some x \<Rightarrow> Dbl x)"

text \<open>Lines 110-111: the window and the average over it, one value for each row.\<close>

definition avgLoanAmount ::
  "env \<Rightarrow> ('r \<Rightarrow> 'k) \<Rightarrow> ('r \<Rightarrow> 'o::linorder) \<Rightarrow> ('r \<Rightarrow> double option) \<Rightarrow> 'r list
     \<Rightarrow> ('r \<times> double option) list" where
  "avgLoanAmount env branch loan_date Amount rs =
     over_window branch loan_date (- 2) 0 (\<lambda>w. avg env (map Amount w)) rs"

definition with_avgLoanAmount :: "env \<Rightarrow> frame \<Rightarrow> exn + frame" where
  "with_avgLoanAmount env joined_df =
     sum_bind (resolve (columns joined_df) ''branch'') (\<lambda>branch.
     sum_bind (resolve (columns joined_df) ''loan_date'') (\<lambda>loan_date.
     sum_bind (resolve (columns joined_df) ''Amount'') (\<lambda>Amount.
       Inr (withColumn joined_df ''avgLoanAmount''
              (map (\<lambda>(r, v). (r, double_cell v))
                   (avgLoanAmount env (\<lambda>r. cell_at r branch) (\<lambda>r. cell_key (cell_at r loan_date))
                      (\<lambda>r. cell_double env (cell_at r Amount)) (rows joined_df)))))))"

text \<open>Reading a local variable: a name the function assigns somewhere is local to it, and
  reading it before its first assignment raises.\<close>

definition read_local :: "string \<Rightarrow> 'a option \<Rightarrow> 'a io" where
  "read_local name v = (case v of None \<Rightarrow> io_raise (UnboundLocalError name) | Some x \<Rightarrow> io_return x)"

text \<open>Line 117: the distinct values of one column, collected.\<close>

definition distinct_values :: "frame \<Rightarrow> string \<Rightarrow> exn + cell list" where
  "distinct_values df name =
     sum_bind (select df [name]) (\<lambda>d. Inr (concat (remdups (rows d))))"

text \<open>How an f-string prints a collected value.\<close>

definition cell_str :: "env \<Rightarrow> cell \<Rightarrow> string" where
  "cell_str env c =
     (case c of
        Str s \<Rightarrow> s
      | Null \<Rightarrow> ''None''
      | DateV d \<Rightarrow> isoformat d
      | Dbl x \<Rightarrow> repr_double env x)"

definition transform_output_path :: "env \<Rightarrow> cell \<Rightarrow> string \<Rightarrow> string" where
  "transform_output_path env bank_name current_date =
     s3_base_path @ ''/'' @ transform @ ''/'' @ cell_str env bank_name @ ''/'' @ year_month env @ ''/''
       @ cell_str env bank_name @ ''_'' @ current_date @ ''.csv''"

text \<open>Lines 118-122: the loop over the bank names; \<open>final_df\<close> is reassigned in its body.\<close>

fun write_per_bank :: "env \<Rightarrow> string \<Rightarrow> frame \<Rightarrow> cell list \<Rightarrow> unit io" where
  "write_per_bank env current_date final_df [] = io_return ()"
| "write_per_bank env current_date final_df (bank_name # bank_names) =
     io_bind (io_lift (filter_eq final_df ''bank_name'' bank_name)) (\<lambda>final_df.
     io_bind (io_lift (select final_df [''idBranch'', ''avgLoanAmount''])) (\<lambda>final_df.
     io_bind (csv_write_overwrite env (transform_output_path env bank_name current_date) True final_df)
       (\<lambda>u.
     write_per_bank env current_date final_df bank_names)))"

text \<open>Lines 115-122, which follow the computation of \<open>joined_df\<close>. The function assigns
  \<open>final_df\<close> only at lines 119 and 120 (line 113 is a comment), so \<open>final_df\<close> is a local
  variable that has no value when line 117 reads it; \<open>joined_df\<close> is not read again.\<close>

definition write_bank_files :: "env \<Rightarrow> frame \<Rightarrow> unit io" where
  "write_bank_files env joined_df =
     io_bind (io_return (strftime_Ymd (transform_now env))) (\<lambda>current_date.
     io_bind (read_local ''final_df'' None) (\<lambda>final_df.
     io_bind (io_lift (distinct_values final_df ''Name'')) (\<lambda>bank_names.
     write_per_bank env current_date final_df bank_names)))"

text \<open>Lines 89-122, the body of the \<^verbatim>\<open>try\<close>.\<close>

definition transform_body :: "env \<Rightarrow> pyval \<Rightarrow> pyval \<Rightarrow> unit io" where
  "transform_body env spark table_name =
     io_bind (spark_read_csv env spark
                (s3_base_path @ ''/'' @ landing @ ''/'' @ py_str table_name @ ''/*.csv'')) (\<lambda>df1.
     io_bind (spark_read_csv env spark
                (s3_base_path @ ''/'' @ landing @ ''/'' @ py_str table_name @ ''/*.csv'')) (\<lambda>df2.
     io_bind (spark_read_csv env spark
                (s3_base_path @ ''/'' @ landing @ ''/'' @ py_str table_name @ ''/*.csv'')) (\<lambda>df3.
     io_bind (spark_read_csv env spark
                (s3_base_path @ ''/'' @ landing @ ''/'' @ py_str table_name @ ''/*.csv'')) (\<lambda>df4.
     io_bind (spark_read_csv env spark
                (s3_base_path @ ''/'' @ landing @ ''/'' @ py_str table_name @ ''/*.csv'')) (\<lambda>df5.
     io_bind (io_lift (join_tables df1 df2 df3 df4 df5)) (\<lambda>joined_df.
     io_bind (io_lift (orderBy joined_df ''date'')) (\<lambda>joined_df.
     io_bind (io_lift (with_loan_date env joined_df)) (\<lambda>joined_df.
     io_bind (io_lift (with_avgLoanAmount env joined_df)) (\<lambda>joined_df.
     write_bank_files env joined_df)))))))))"

text \<open>Lines 85-129: the body, and the handler of lines 127-129, which logs and does not raise.\<close>

definition transform_monthly_data :: "env \<Rightarrow> pyval \<Rightarrow> pyval \<Rightarrow> unit io" where
  "transform_monthly_data env spark table_name =
     try_except
       (transform_body env spark table_name)
       (\<lambda>e. io_bind (logger_error ''An unexpected error occurred.'') (\<lambda>u.
             logger_exception e))"

text \<open>A call \<^verbatim>\<open>transform_monthly_data(*args)\<close>: the signature of line 84 has two
  positional parameters without defaults.\<close>

definition call_transform_monthly_data :: "env \<Rightarrow> pyval list \<Rightarrow> unit io" where
  "call_transform_monthly_data env args =
     (case args of
        [] \<Rightarrow> io_raise (TypeError ''transform_monthly_data() missing 2 required positional arguments'')
      | [spark] \<Rightarrow> io_raise (TypeError ''transform_monthly_data() missing 1 required positional argument'')
      | [spark, table_name] \<Rightarrow> transform_monthly_data env spark table_name
      | spark # table_name # extra # others \<Rightarrow>
          io_raise (TypeError ''transform_monthly_data() takes 2 positional arguments but more were given''))"

subsection \<open>\<^verbatim>\<open>main\<close> (lines 132-179)\<close>

text \<open>Lines 169-170: the loop over the table names; an exception leaves it.\<close>

fun extract_each ::
  "env \<Rightarrow> session \<Rightarrow> aurora_properties \<Rightarrow> date \<Rightarrow> date \<Rightarrow> string list \<Rightarrow> unit io" where
  "extract_each env spark aurora_properties start_date end_date [] = io_return ()"
| "extract_each env spark aurora_properties start_date end_date (table_name # table_names) =
     io_bind (extract_monthly_data env spark aurora_properties table_name start_date end_date) (\<lambda>u.
     extract_each env spark aurora_properties start_date end_date table_names)"

text \<open>Lines 134-170: arguments, session, credentials, date window and the staging loop.\<close>

definition stage_data :: "env \<Rightarrow> session io" where
  "stage_data env =
     io_bind (external GlueContextCall (glue_argv env)) (\<lambda>args.
     if length args < 2
     then io_raise (ValueError ''No table names provided as job parameters.'')
     else
     io_bind (io_return (drop 1 args)) (\<lambda>table_names.
     io_bind (create_spark_session env) (\<lambda>spark.
     io_bind (get_secrets env ''your-aurora-secret-name'') (\<lambda>aurora_credentials.
     io_bind (io_return (aurora_credentials ''endpoint'')) (\<lambda>aurora_endpoint.
     case aurora_endpoint of
       None \<Rightarrow> io_raise (ValueError ''Aurora endpoint not found in Secrets Manager response.'')
     | Some endpoint \<Rightarrow>
     if endpoint = []
     then io_raise (ValueError ''Aurora endpoint not found in Secrets Manager response.'')
     else
     io_bind (io_return \<lparr>user = aurora_credentials ''username'',
                          password = aurora_credentials ''password'',
                          driver = ''com.mysql.jdbc.Driver'',
                          url = ''jdbc:mysql://'' @ endpoint @ '':3306/BankingDB''\<rparr>)
       (\<lambda>aurora_properties.
     io_bind (io_return (main_now env)) (\<lambda>current_date.
     io_bind (io_lift (monthrange (year current_date) (month current_date))) (\<lambda>last_day.
     io_bind (io_lift (replace_day current_date 1)) (\<lambda>start_date.
     io_bind (io_lift (replace_day current_date last_day)) (\<lambda>end_date.
     io_bind (extract_each env spark aurora_properties start_date end_date table_names) (\<lambda>u.
     io_return spark)))))))))))"

text \<open>Lines 134-175, the body of the \<^verbatim>\<open>try\<close>: staging, then the call of line 173, which
  passes no argument, then line 175.\<close>

definition main_body :: "env \<Rightarrow> unit io" where
  "main_body env =
     io_bind (stage_data env) (\<lambda>spark.
     io_bind (call_transform_monthly_data env []) (\<lambda>u.
     spark_stop env spark))"

definition main :: "env \<Rightarrow> unit io" where
  "main env =
     try_except (main_body env)
       (\<lambda>e. io_bind (logger_error ''An unexpected error occurred.'') (\<lambda>u.
             logger_exception e))"

text \<open>The state in which a run starts: nothing logged, nothing called yet, and whatever the
  object store holds.\<close>

definition start_world :: "(string \<Rightarrow> csv_object option) \<Rightarrow> world" where
  "start_world store = \<lparr>logged = [], calls = [], s3 = store\<rparr>"

subsection \<open>Bounds on what an action does\<close>

text \<open>\<open>effects_in A m\<close>: whatever the state, \<open>m\<close> only adds calls of \<open>A\<close> to the record of
  calls, and leaves every object alone that no write of \<open>A\<close> targets.\<close>

definition effects_in :: "call set \<Rightarrow> 'a io \<Rightarrow> bool" where
  "effects_in A m =
     (\<forall>\<sigma>. \<exists>cs. calls (snd (m \<sigma>)) = calls \<sigma> @ cs \<and> set cs \<subseteq> A
            \<and> (\<forall>p. S3WriteCall p \<notin> A \<longrightarrow> s3 (snd (m \<sigma>)) p = s3 \<sigma> p))"

text \<open>The calls that lines 134-170 can make.\<close>

definition stage_calls :: "env \<Rightarrow> call set" where
  "stage_calls env = {GlueContextCall, SparkSessionCall, SecretsManagerCall ''your-aurora-secret-name''}
      \<union> range (\<lambda>(props, q). JdbcLoadCall props q) \<union> range (\<lambda>t. S3WriteCall (s3_output_path env t))"


text \<open>Every row of a frame has one cell for each column.\<close>

definition well_formed :: "frame \<Rightarrow> bool" where
  "well_formed df = list_all (\<lambda>r. length r = length (columns df)) (rows df)"

subsection \<open>Sample runs\<close>

definition example_table :: frame where
  "example_table =
     \<lparr>columns = [''date_column'', ''Amount''],
      rows = [[DateV (Date 2026 11 1), Str ''100''],
              [DateV (Date 2026 11 29), Str ''250''],
              [DateV (Date 2026 11 30), Str ''75''],
              [DateV (Date 2026 10 31), Str ''10''],
              [Null, Str ''5'']]\<rparr>"

text \<open>A run against stand-ins for the collaborators whose loaded frames have \<^verbatim>\<open>__enter__\<close>
  and \<^verbatim>\<open>__exit__\<close>, and the same run with frames as pyspark has them. The stand-in for the
  rounding keeps every value: the sample amounts, their sums and their means are whole
  numbers or halves, which doubles hold exactly.\<close>

definition example_env :: env where
  "example_env =
     \<lparr>import_now = Date 2026 11 3,
      glue_argv = Inr [''etl.py'', ''Loan'', ''Branch''],
      spark_session = Inr SparkSession,
      get_secret_value = (\<lambda>name. Inr (Some ''secret'')),
      json_loads = (\<lambda>secret_text. Inr (map_of [(''endpoint'', ''db.example.com''), (''username'', ''etl''),
                                            (''password'', ''pw'')])),
      main_now = Date 2026 11 3,
      jdbc_table = (\<lambda>props table. Inr example_table),
      dataframe_with_error = None,
      s3_write_error = (\<lambda>path. None),
      s3_read_csv = (\<lambda>path. Inr example_table),
      transform_now = Date 2026 11 3,
      to_date = (\<lambda>s. None),
      cast_double = map_of [(''7'', Finite 7), (''10'', Finite 10), (''20'', Finite 20),
                            (''40'', Finite 40)],
      round_double = Finite,
      repr_double = (\<lambda>x. ''0.0''),
      spark_stop_error = None\<rparr>"

definition pyspark_env :: env where
  "pyspark_env = example_env\<lparr>dataframe_with_error := Some (AttributeError ''__enter__'')\<rparr>"


definition joined_two_banks :: frame where
  "joined_two_banks =
     \<lparr>columns = [''Name'', ''bank_name'', ''idBranch'', ''avgLoanAmount''],
      rows = [[Str ''A'', Str ''A'', Str ''1'', Dbl (Finite 100)],
              [Str ''B'', Str ''B'', Str ''2'', Dbl (Finite 250)],
              [Str ''A'', Str ''A'', Str ''3'', Dbl (Finite 75)]]\<rparr>"

definition failing_env :: env where
  "failing_env =
     example_env\<lparr>jdbc_table := (\<lambda>props table.
        if table = ''Branch'' then Inl (ExternalError ''connection refused'')
        else Inr example_table)\<rparr>"

definition example_properties :: aurora_properties where
  "example_properties =
     \<lparr>user = Some ''etl'', password = Some ''pw'', driver = ''com.mysql.jdbc.Driver'',
      url = ''jdbc:mysql://db.example.com:3306/BankingDB''\<rparr>"

text \<open>Sample tables for the join, and sample joined rows for the window.\<close>

definition example_loans :: frame where
  "example_loans =
     \<lparr>columns = [''idBank'', ''idBranch'', ''idClient'', ''idAccount'', ''Amount''],
      rows = [[Str ''1'', Str ''10'', Str ''100'', Str ''1000'', Str ''50''],
              [Str ''2'', Str ''10'', Str ''100'', Str ''1000'', Str ''70''],
              [Null, Str ''10'', Str ''100'', Str ''1000'', Str ''90'']]\<rparr>"

definition example_banks :: frame where
  "example_banks = \<lparr>columns = [''Bank_idBank'', ''Name''], rows = [[Str ''1'', Str ''A''], [Null, Str ''B'']]\<rparr>"

definition example_branches :: frame where
  "example_branches = \<lparr>columns = [''Branch_idBranch'', ''branch''], rows = [[Str ''10'', Str ''North'']]\<rparr>"

definition example_clients :: frame where
  "example_clients = \<lparr>columns = [''Client_idClient''], rows = [[Str ''100'']]\<rparr>"

definition example_accounts :: frame where
  "example_accounts = \<lparr>columns = [''Account_idAccount''], rows = [[Str ''1000''], [Str ''2000'']]\<rparr>"


section \<open>Properties\<close>

subsection \<open>Auxiliary facts\<close>

lemmas io_defs = io_return_def io_raise_def io_lift_def io_bind_def try_except_def try_finally_def
  logger_info_def logger_error_def logger_exception_def external_def

lemma effects_in_return: "effects_in A (io_return x)"
  by (simp add: effects_in_def io_return_def)

lemma effects_in_raise: "effects_in A (io_raise e)"
  by (simp add: effects_in_def io_raise_def)

lemma effects_in_lift: "effects_in A (io_lift r)"
  by (simp add: effects_in_def io_lift_def)

lemma effects_in_logger:
  "effects_in A (logger_info msg)" "effects_in A (logger_error msg)" "effects_in A (logger_exception e)"
  by (simp_all add: effects_in_def logger_info_def logger_error_def logger_exception_def)

lemma effects_in_external: "c \<in> A \<Longrightarrow> effects_in A (external c r)"
  by (simp add: effects_in_def external_def)

lemma effects_in_bind:
  assumes m: "effects_in A m" and f: "\<And>x. effects_in A (f x)"
  shows "effects_in A (io_bind m f)"
  unfolding effects_in_def
proof
  fix \<sigma>
  obtain r \<sigma>1 where r: "m \<sigma> = (r, \<sigma>1)" by (cases "m \<sigma>")
  from m obtain cs where cs: "calls \<sigma>1 = calls \<sigma> @ cs" "set cs \<subseteq> A"
    "\<forall>p. S3WriteCall p \<notin> A \<longrightarrow> s3 \<sigma>1 p = s3 \<sigma> p"
    unfolding effects_in_def using r by (metis snd_conv)
  show "\<exists>cs. calls (snd (io_bind m f \<sigma>)) = calls \<sigma> @ cs \<and> set cs \<subseteq> A
            \<and> (\<forall>p. S3WriteCall p \<notin> A \<longrightarrow> s3 (snd (io_bind m f \<sigma>)) p = s3 \<sigma> p)"
  proof (cases r)
    case (Inl e)
    then show ?thesis using r cs by (simp add: io_bind_def)
  next
    case (Inr x)
    from f[of x] obtain ds where ds: "calls (snd (f x \<sigma>1)) = calls \<sigma>1 @ ds" "set ds \<subseteq> A"
      "\<forall>p. S3WriteCall p \<notin> A \<longrightarrow> s3 (snd (f x \<sigma>1)) p = s3 \<sigma>1 p"
      unfolding effects_in_def by blast
    have "io_bind m f \<sigma> = f x \<sigma>1" using r Inr by (simp add: io_bind_def)
    then show ?thesis using cs ds by (intro exI[of _ "cs @ ds"]) simp
  qed
qed

lemma effects_in_try_except:
  assumes m: "effects_in A m" and h: "\<And>e. effects_in A (h e)"
  shows "effects_in A (try_except m h)"
  unfolding effects_in_def
proof
  fix \<sigma>
  obtain r \<sigma>1 where r: "m \<sigma> = (r, \<sigma>1)" by (cases "m \<sigma>")
  from m obtain cs where cs: "calls \<sigma>1 = calls \<sigma> @ cs" "set cs \<subseteq> A"
    "\<forall>p. S3WriteCall p \<notin> A \<longrightarrow> s3 \<sigma>1 p = s3 \<sigma> p"
    unfolding effects_in_def using r by (metis snd_conv)
  show "\<exists>cs. calls (snd (try_except m h \<sigma>)) = calls \<sigma> @ cs \<and> set cs \<subseteq> A
            \<and> (\<forall>p. S3WriteCall p \<notin> A \<longrightarrow> s3 (snd (try_except m h \<sigma>)) p = s3 \<sigma> p)"
  proof (cases r)
    case (Inr x)
    then show ?thesis using r cs by (simp add: try_except_def)
  next
    case (Inl e)
    from h[of e] obtain ds where ds: "calls (snd (h e \<sigma>1)) = calls \<sigma>1 @ ds" "set ds \<subseteq> A"
      "\<forall>p. S3WriteCall p \<notin> A \<longrightarrow> s3 (snd (h e \<sigma>1)) p = s3 \<sigma>1 p"
      unfolding effects_in_def by blast
    have "try_except m h \<sigma> = h e \<sigma>1" using r Inl by (simp add: try_except_def)
    then show ?thesis using cs ds by (intro exI[of _ "cs @ ds"]) simp
  qed
qed

lemma effects_in_try_finally:
  assumes m: "effects_in A m" and f: "effects_in A f"
  shows "effects_in A (try_finally m f)"
  unfolding effects_in_def
proof
  fix \<sigma>
  obtain r \<sigma>1 where r: "m \<sigma> = (r, \<sigma>1)" by (cases "m \<sigma>")
  from m obtain cs where cs: "calls \<sigma>1 = calls \<sigma> @ cs" "set cs \<subseteq> A"
    "\<forall>p. S3WriteCall p \<notin> A \<longrightarrow> s3 \<sigma>1 p = s3 \<sigma> p"
    unfolding effects_in_def using r by (metis snd_conv)
  obtain r2 \<sigma>2 where r2: "f \<sigma>1 = (r2, \<sigma>2)" by (cases "f \<sigma>1")
  from f obtain ds where ds: "calls \<sigma>2 = calls \<sigma>1 @ ds" "set ds \<subseteq> A"
    "\<forall>p. S3WriteCall p \<notin> A \<longrightarrow> s3 \<sigma>2 p = s3 \<sigma>1 p"
    unfolding effects_in_def using r2 by (metis snd_conv)
  have "snd (try_finally m f \<sigma>) = \<sigma>2"
    using r r2 by (simp add: try_finally_def split: sum.splits)
  then show "\<exists>cs. calls (snd (try_finally m f \<sigma>)) = calls \<sigma> @ cs \<and> set cs \<subseteq> A
            \<and> (\<forall>p. S3WriteCall p \<notin> A \<longrightarrow> s3 (snd (try_finally m f \<sigma>)) p = s3 \<sigma> p)"
    using cs ds by (intro exI[of _ "cs @ ds"]) simp
qed

lemma effects_in_csv_write: "S3WriteCall path \<in> A \<Longrightarrow> effects_in A (csv_write_overwrite env path h df)"
  by (auto simp: effects_in_def csv_write_overwrite_def split: option.splits)

lemma effects_in_with_frame:
  "(\<And>df. effects_in A (body df)) \<Longrightarrow> effects_in A (with_frame env loaded body)"
  by (cases "dataframe_with_error env") (simp_all add: with_frame_def effects_in_raise)

lemmas effects_in_rules = effects_in_with_frame effects_in_return effects_in_raise effects_in_lift effects_in_logger effects_in_external
  effects_in_bind effects_in_try_except effects_in_try_finally effects_in_csv_write

lemma io_bind_return [simp]: "io_bind (io_return x) f = f x"
  by (rule ext) (simp add: io_bind_def io_return_def)

lemma io_bind_raise [simp]: "io_bind (io_raise e) f = io_raise e"
  by (rule ext) (simp add: io_bind_def io_raise_def)

lemma io_bind_lift_Inr [simp]: "io_bind (io_lift (Inr x)) f = f x"
  by (rule ext) (simp add: io_bind_def io_lift_def)

lemma io_bind_lift_Inl [simp]: "io_bind (io_lift (Inl e)) f = io_raise e"
  by (rule ext) (simp add: io_bind_def io_lift_def io_raise_def)

lemma effects_in_extract:
  assumes "JdbcLoadCall props \<lparr>from_table = t, date_from = s, date_before = e\<rparr> \<in> A"
    and "S3WriteCall (s3_output_path env t) \<in> A"
  shows "effects_in A (extract_monthly_data env sp props t s e)"
  unfolding extract_monthly_data_def jdbc_load_def io_bind_return
  by (intro effects_in_rules assms)

lemma effects_in_extract_each:
  assumes "\<And>t. JdbcLoadCall props \<lparr>from_table = t, date_from = s, date_before = e\<rparr> \<in> A"
    and "\<And>t. S3WriteCall (s3_output_path env t) \<in> A"
  shows "effects_in A (extract_each env sp props s e ts)"
  by (induction ts) (auto intro!: effects_in_rules effects_in_extract assms)

lemma effects_in_if: "effects_in A a \<Longrightarrow> effects_in A b \<Longrightarrow> effects_in A (if c then a else b)"
  by simp

lemma effects_in_case_option: "effects_in A a \<Longrightarrow> (\<And>x. effects_in A (b x)) \<Longrightarrow> effects_in A (case v of None \<Rightarrow> a | Some x \<Rightarrow> b x)"
  by (cases v) simp_all

lemma effects_in_stage_data: "effects_in (stage_calls env) (stage_data env)"
  unfolding stage_data_def create_spark_session_def get_secrets_def io_bind_return
  apply (intro effects_in_rules effects_in_if effects_in_case_option effects_in_extract_each)
  apply (auto simp: stage_calls_def)
  done

lemma extract_load_fails:
  assumes "jdbc_result env props \<lparr>from_table = t, date_from = s, date_before = e\<rparr> = Inl err"
  shows "extract_monthly_data env sp props t s e \<sigma> =
    (Inl err, \<sigma>\<lparr>logged := logged \<sigma> @
        [Info (''Starting data extraction process for table: '' @ t),
         Error (''An error occurred during data extraction for table: '' @ t),
         Exception err,
         Info (''Data extraction process completed for table: '' @ t)],
       calls := calls \<sigma> @ [JdbcLoadCall props \<lparr>from_table = t, date_from = s, date_before = e\<rparr>]\<rparr>)"
  using assms by (simp add: extract_monthly_data_def jdbc_load_def io_defs)

lemma extract_with_fails:
  assumes "jdbc_result env props \<lparr>from_table = t, date_from = s, date_before = e\<rparr> = Inr df"
    and "dataframe_with_error env = Some err"
  shows "extract_monthly_data env sp props t s e \<sigma> =
    (Inl err, \<sigma>\<lparr>logged := logged \<sigma> @
        [Info (''Starting data extraction process for table: '' @ t),
         Error (''An error occurred during data extraction for table: '' @ t),
         Exception err,
         Info (''Data extraction process completed for table: '' @ t)],
       calls := calls \<sigma> @ [JdbcLoadCall props \<lparr>from_table = t, date_from = s, date_before = e\<rparr>]\<rparr>)"
  using assms by (simp add: extract_monthly_data_def jdbc_load_def with_frame_def io_defs)

lemma extract_write_fails:
  assumes "dataframe_with_error env = None"
    and "jdbc_result env props \<lparr>from_table = t, date_from = s, date_before = e\<rparr> = Inr df"
    and "s3_write_error env (s3_output_path env t) = Some err"
  shows "extract_monthly_data env sp props t s e \<sigma> =
    (Inl err, \<sigma>\<lparr>logged := logged \<sigma> @
        [Info (''Starting data extraction process for table: '' @ t),
         Info ''Data loaded successfully from Aurora.'',
         Error (''An error occurred during data extraction for table: '' @ t),
         Exception err,
         Info (''Data extraction process completed for table: '' @ t)],
       calls := calls \<sigma> @ [JdbcLoadCall props \<lparr>from_table = t, date_from = s, date_before = e\<rparr>,
          S3WriteCall (s3_output_path env t)]\<rparr>)"
  using assms
  by (simp add: extract_monthly_data_def jdbc_load_def with_frame_def csv_write_overwrite_def io_defs)

lemma extract_succeeds:
  assumes "dataframe_with_error env = None"
    and "jdbc_result env props \<lparr>from_table = t, date_from = s, date_before = e\<rparr> = Inr df"
    and "s3_write_error env (s3_output_path env t) = None"
  shows "extract_monthly_data env sp props t s e \<sigma> =
    (Inr (), \<sigma>\<lparr>logged := logged \<sigma> @
        [Info (''Starting data extraction process for table: '' @ t),
         Info ''Data loaded successfully from Aurora.'',
         Info ''Data saved successfully to S3.'',
         Info (''Data extraction process completed for table: '' @ t)],
       calls := calls \<sigma> @ [JdbcLoadCall props \<lparr>from_table = t, date_from = s, date_before = e\<rparr>,
          S3WriteCall (s3_output_path env t)],
       s3 := (s3 \<sigma>)(s3_output_path env t \<mapsto> \<lparr>with_header = False, data = df\<rparr>)\<rparr>)"
  using assms
  by (simp add: extract_monthly_data_def jdbc_load_def with_frame_def csv_write_overwrite_def io_defs)

lemma write_bank_files_raises:
  "write_bank_files env joined_df \<sigma> = (Inl (UnboundLocalError ''final_df''), \<sigma>)"
  by (simp add: write_bank_files_def read_local_def io_defs)

lemma spark_read_csv_effect:
  "\<exists>r cs. spark_read_csv env sp path \<sigma> = (r, \<sigma>\<lparr>calls := calls \<sigma> @ cs\<rparr>) \<and> set cs \<subseteq> {S3ReadCall path}"
proof (cases sp)
  case (SessionV s)
  then show ?thesis
    by (simp add: spark_read_csv_def external_def) (rule exI[of _ "[S3ReadCall path]"], simp)
next
  case (StrV s)
  then show ?thesis
    by (simp add: spark_read_csv_def io_raise_def) (rule exI[of _ "[]"], simp)
qed

lemma transform_tail_raises:
  "\<exists>e. io_bind (io_lift (join_tables df1 df2 df3 df4 df5)) (\<lambda>joined_df.
        io_bind (io_lift (orderBy joined_df ''date'')) (\<lambda>joined_df.
        io_bind (io_lift (with_loan_date env joined_df)) (\<lambda>joined_df.
        io_bind (io_lift (with_avgLoanAmount env joined_df)) (\<lambda>joined_df.
        write_bank_files env joined_df)))) \<sigma> = (Inl e, \<sigma>)"
  by (simp add: io_bind_def io_lift_def write_bank_files_raises split: sum.splits)

lemma transform_body_raises:
  "\<exists>e cs. transform_body env sp t \<sigma> = (Inl e, \<sigma>\<lparr>calls := calls \<sigma> @ cs\<rparr>)
     \<and> set cs \<subseteq> {S3ReadCall (s3_base_path @ ''/'' @ landing @ ''/'' @ py_str t @ ''/*.csv'')}"
proof -
  let ?path = "s3_base_path @ ''/'' @ landing @ ''/'' @ py_str t @ ''/*.csv''"
  show ?thesis
  proof (cases sp)
    case (StrV s)
    then have "transform_body env sp t \<sigma> = (Inl (AttributeError ''read''), \<sigma>\<lparr>calls := calls \<sigma> @ []\<rparr>)"
      by (simp add: transform_body_def spark_read_csv_def io_defs)
    then show ?thesis by (intro exI conjI) (assumption, simp)
  next
    case (SessionV s)
    show ?thesis
    proof (cases "s3_read_csv env ?path")
      case (Inl e)
      with SessionV have "transform_body env sp t \<sigma> = (Inl e, \<sigma>\<lparr>calls := calls \<sigma> @ [S3ReadCall ?path]\<rparr>)"
        by (simp add: transform_body_def spark_read_csv_def sum_bind_def io_defs)
      then show ?thesis by (intro exI conjI) (assumption, simp)
    next
      case (Inr df)
      let ?\<sigma>5 = "\<sigma>\<lparr>calls := calls \<sigma> @ replicate 5 (S3ReadCall ?path)\<rparr>"
      obtain e where e: "io_bind (io_lift (join_tables (normalise df) (normalise df) (normalise df) (normalise df) (normalise df))) (\<lambda>joined_df.
        io_bind (io_lift (orderBy joined_df ''date'')) (\<lambda>joined_df.
        io_bind (io_lift (with_loan_date env joined_df)) (\<lambda>joined_df.
        io_bind (io_lift (with_avgLoanAmount env joined_df)) (\<lambda>joined_df.
        write_bank_files env joined_df)))) ?\<sigma>5 = (Inl e, ?\<sigma>5)"
        using transform_tail_raises by blast
      have reads: "\<And>f. io_bind (spark_read_csv env sp ?path) f = (\<lambda>\<sigma>. f (normalise df) (\<sigma>\<lparr>calls := calls \<sigma> @ [S3ReadCall ?path]\<rparr>))"
        using SessionV Inr by (auto simp: spark_read_csv_def sum_bind_def io_bind_def external_def)
      have "transform_body env sp t \<sigma> = (Inl e, \<sigma>\<lparr>calls := calls \<sigma> @ replicate 5 (S3ReadCall ?path)\<rparr>)"
        unfolding transform_body_def reads
        using e by (simp add: numeral_eq_Suc)
      then show ?thesis by (intro exI conjI) (assumption, simp)
    qed
  qed
qed

lemma transform_logs_body_error:
  assumes "transform_body env sp t \<sigma> = (Inl e, \<sigma>1)"
  shows "transform_monthly_data env sp t \<sigma> =
      (Inr (), \<sigma>1\<lparr>logged := logged \<sigma>1 @ [Error ''An unexpected error occurred.'', Exception e]\<rparr>)"
  using assms
  by (simp add: transform_monthly_data_def try_except_def io_bind_def logger_error_def
      logger_exception_def)

lemma transform_monthly_data_effect:
  "\<exists>e cs. transform_monthly_data env sp t \<sigma> =
      (Inr (), \<sigma>\<lparr>calls := calls \<sigma> @ cs,
                  logged := logged \<sigma> @ [Error ''An unexpected error occurred.'', Exception e]\<rparr>)
     \<and> set cs \<subseteq> {S3ReadCall (s3_base_path @ ''/'' @ landing @ ''/'' @ py_str t @ ''/*.csv'')}"
proof -
  from transform_body_raises[of env sp t \<sigma>] obtain e cs where
    b: "transform_body env sp t \<sigma> = (Inl e, \<sigma>\<lparr>calls := calls \<sigma> @ cs\<rparr>)"
    and cs: "set cs \<subseteq> {S3ReadCall (s3_base_path @ ''/'' @ landing @ ''/'' @ py_str t @ ''/*.csv'')}"
    by blast
  have "transform_monthly_data env sp t \<sigma> =
      (Inr (), \<sigma>\<lparr>calls := calls \<sigma> @ cs,
                  logged := logged \<sigma> @ [Error ''An unexpected error occurred.'', Exception e]\<rparr>)"
    unfolding transform_logs_body_error[OF b] by simp
  with cs show ?thesis by (intro exI conjI)
qed

lemma landing_not_transform:
  "s3_output_path env t \<noteq> transform_output_path env bank d"
  by (simp add: s3_output_path_def transform_output_path_def s3_base_path_def landing_def transform_def)

lemma call_without_arguments:
  "call_transform_monthly_data env [] = io_raise (TypeError ''transform_monthly_data() missing 2 required positional arguments'')"
  by (simp add: call_transform_monthly_data_def)

lemma effects_in_main: "effects_in (stage_calls env) (main env)"
  unfolding main_def main_body_def call_without_arguments io_bind_raise
  by (intro effects_in_rules effects_in_stage_data)



lemma stage_data_runs_extractions:
  assumes "glue_argv env = Inr args" and "\<not> length args < 2"
    and "spark_session env = Inr spark"
    and "get_secret_value env ''your-aurora-secret-name'' = Inr (Some secret_text)" and "secret_text \<noteq> []"
    and "json_loads env secret_text = Inr creds"
    and "creds ''endpoint'' = Some endpoint" and "endpoint \<noteq> []"
    and "monthrange (year (main_now env)) (month (main_now env)) = Inr last_day"
    and "replace_day (main_now env) 1 = Inr start_date"
    and "replace_day (main_now env) last_day = Inr end_date"
  shows "stage_data env \<sigma> =
     io_bind (extract_each env spark
                \<lparr>user = creds ''username'', password = creds ''password'',
                   driver = ''com.mysql.jdbc.Driver'',
                   url = ''jdbc:mysql://'' @ endpoint @ '':3306/BankingDB''\<rparr>
                start_date end_date (drop 1 args)) (\<lambda>u. io_return spark)
       (\<sigma>\<lparr>calls := calls \<sigma> @ [GlueContextCall, SparkSessionCall,
                                   SecretsManagerCall ''your-aurora-secret-name'']\<rparr>)"
proof -
  have glue: "external GlueContextCall (glue_argv env) \<sigma> = (Inr args, \<sigma>\<lparr>calls := calls \<sigma> @ [GlueContextCall]\<rparr>)"
    using assms(1) by (simp add: external_def)
  have sess: "\<And>\<sigma>. create_spark_session env \<sigma> = (Inr spark, \<sigma>\<lparr>calls := calls \<sigma> @ [SparkSessionCall]\<rparr>)"
    using assms(3) by (simp add: create_spark_session_def try_except_def external_def)
  have secr: "\<And>\<sigma>. get_secrets env ''your-aurora-secret-name'' \<sigma>
      = (Inr creds, \<sigma>\<lparr>calls := calls \<sigma> @ [SecretsManagerCall ''your-aurora-secret-name'']\<rparr>)"
    using assms(4,5,6) by (simp add: get_secrets_def try_except_def external_def io_bind_def io_lift_def)
  show ?thesis
    unfolding stage_data_def io_bind_return
    apply (subst io_bind_def)
    apply (simp only: glue prod.case sum.case assms(2) if_False)
    apply (subst io_bind_def)
    apply (simp only: sess prod.case sum.case)
    apply (subst io_bind_def)
    apply (simp only: secr prod.case sum.case assms option.case if_False io_bind_lift_Inr)
    apply simp
    done
qed

lemma extract_each_all_succeed:
  assumes "\<forall>t \<in> set ts. \<exists>df. jdbc_result env props \<lparr>from_table = t, date_from = s, date_before = e\<rparr> = Inr df
              \<and> s3_write_error env (s3_output_path env t) = None"
    and supported: "dataframe_with_error env = None"
  shows "fst (extract_each env sp props s e ts \<sigma>) = Inr ()"
  using assms
proof (induction ts arbitrary: \<sigma>)
  case Nil
  then show ?case by (simp add: io_return_def)
next
  case (Cons t ts)
  then obtain df where "jdbc_result env props \<lparr>from_table = t, date_from = s, date_before = e\<rparr> = Inr df"
    "s3_write_error env (s3_output_path env t) = None" by auto
  from extract_succeeds[OF supported this] Cons show ?case
    by (simp add: io_bind_def)
qed

lemma example_resolve: "resolve (columns example_table) ''date_column'' = Inr 0"
  by code_simp

lemma example_jdbc:
  "\<exists>df. jdbc_result example_env props q = Inr df"
  by (simp add: jdbc_result_def run_query_def example_resolve sum_bind_def example_env_def)

lemma example_month:
  "monthrange (year (main_now example_env)) (month (main_now example_env)) = Inr 30"
  "replace_day (main_now example_env) 1 = Inr (Date 2026 11 1)"
  "replace_day (main_now example_env) 30 = Inr (Date 2026 11 30)"
  by (simp_all add: example_env_def replace_day_def monthrange_def mdays_def)

lemma fst_bind_return:
  "fst (m \<sigma>) = Inr u \<Longrightarrow> fst (io_bind m (\<lambda>u. io_return x) \<sigma>) = Inr x"
  by (cases "m \<sigma>") (simp add: io_bind_def io_return_def)

lemma example_stage: "fst (stage_data example_env \<sigma>) = Inr SparkSession"
proof -
  let ?creds = "map_of [(''endpoint'', ''db.example.com''), (''username'', ''etl''), (''password'', ''pw'')]"
  have ok: "fst (extract_each example_env SparkSession props s e ts w) = Inr ()" for props s e ts w
    by (rule extract_each_all_succeed) (simp add: example_jdbc, simp_all add: example_env_def)
  have a1: "glue_argv example_env = Inr [''etl.py'', ''Loan'', ''Branch'']"
    and a3: "spark_session example_env = Inr SparkSession"
    and a4: "get_secret_value example_env ''your-aurora-secret-name'' = Inr (Some ''secret'')"
    and a6: "json_loads example_env ''secret'' = Inr ?creds"
    by (simp_all add: example_env_def)
  have a2: "\<not> length [''etl.py'', ''Loan'', ''Branch''] < 2" and a5: "''secret'' \<noteq> []"
    and a7: "?creds ''endpoint'' = Some ''db.example.com''" and a8: "''db.example.com'' \<noteq> []"
    by simp_all
  note run = stage_data_runs_extractions[OF a1 a2 a3 a4 a5 a6 a7 a8 example_month]
  show ?thesis
    unfolding run by (rule fst_bind_return[OF ok])
qed

lemma extract_each_append:
  "extract_each env sp props s e (xs @ ys) \<sigma> =
     (case extract_each env sp props s e xs \<sigma> of
        (Inl err, \<sigma>') \<Rightarrow> (Inl err, \<sigma>')
      | (Inr u, \<sigma>') \<Rightarrow> extract_each env sp props s e ys \<sigma>')"
proof (induction xs arbitrary: \<sigma>)
  case Nil
  then show ?case by (simp add: io_return_def)
next
  case (Cons x xs)
  then show ?case
    by (simp add: io_bind_def split: prod.splits sum.splits)
qed

lemma extract_returns:
  assumes "fst (extract_monthly_data env sp props t s e \<sigma>) = Inr ()"
  shows "dataframe_with_error env = None
     \<and> (\<exists>df. jdbc_result env props \<lparr>from_table = t, date_from = s, date_before = e\<rparr> = Inr df
            \<and> s3_write_error env (s3_output_path env t) = None)"
proof (cases "jdbc_result env props \<lparr>from_table = t, date_from = s, date_before = e\<rparr>")
  case (Inl err)
  from extract_load_fails[OF this] assms show ?thesis by simp
next
  case (Inr df)
  show ?thesis
  proof (cases "dataframe_with_error env")
    case (Some err)
    from extract_with_fails[OF Inr this] assms show ?thesis by simp
  next
    case None
    show ?thesis
    proof (cases "s3_write_error env (s3_output_path env t)")
      case None
      with Inr \<open>dataframe_with_error env = None\<close> show ?thesis by simp
    next
      case (Some err)
      from extract_write_fails[OF \<open>dataframe_with_error env = None\<close> Inr this] assms
      show ?thesis by simp
    qed
  qed
qed

lemma example_year_month: "year_month example_env = ''202611''"
  by code_simp

lemma in_window_month:
  "in_window \<lparr>from_table = t, date_from = Date y m 1, date_before = Date y m last_day\<rparr> c
     \<longleftrightarrow> (\<exists>d. c = DateV d \<and> year d = y \<and> month d = m \<and> 1 \<le> day d \<and> day d < last_day)"
  by (cases c) (auto simp: in_window_def date_key_def)



lemma resolve_bound:
  assumes "resolve cols name = Inr i"
  shows "i < length cols"
proof -
  from assms have "filter (\<lambda>i. cols ! i = name) [0..<length cols] = [i]"
    by (auto simp: resolve_def split: list.splits)
  then have "i \<in> set (filter (\<lambda>i. cols ! i = name) [0..<length cols])" by simp
  then show ?thesis by simp
qed

lemma cell_at_prefix: "i < length a \<Longrightarrow> cell_at (a @ b) i = cell_at a i"
  by (simp add: cell_at_def nth_append)

lemma rows_inner_join:
  "set (rows (inner_join l r on)) = {a @ b | a b. a \<in> set (rows l) \<and> b \<in> set (rows r) \<and> on a b}"
  by (auto simp: inner_join_def)

lemma columns_inner_join: "columns (inner_join l r on) = columns l @ columns r"
  by (simp add: inner_join_def)

lemma normalise_well_formed: "well_formed (normalise df)"
  by (auto simp: well_formed_def normalise_def list_all_iff min_def)

lemma example_join:
  "join_tables example_loans example_banks example_branches example_clients example_accounts
     = Inr \<lparr>columns = [''idBank'', ''idBranch'', ''idClient'', ''idAccount'', ''Amount'',
                        ''Bank_idBank'', ''Name'', ''Branch_idBranch'', ''branch'',
                        ''Client_idClient'', ''Account_idAccount''],
             rows = [[Str ''1'', Str ''10'', Str ''100'', Str ''1000'', Str ''50'',
                      Str ''1'', Str ''A'', Str ''10'', Str ''North'', Str ''100'', Str ''1000'']]\<rparr>"
  by code_simp

















lemma example_loan_query:
  "jdbc_result example_env props \<lparr>from_table = t, date_from = Date 2026 11 1, date_before = Date 2026 11 30\<rparr>
     = Inr (example_table\<lparr>rows := [[DateV (Date 2026 11 1), Str ''100''],
                                     [DateV (Date 2026 11 29), Str ''250'']]\<rparr>)"
  unfolding jdbc_result_def run_query_def in_window_month
  by (simp add: example_env_def sum_bind_def example_resolve) (simp add: example_table_def cell_at_def)


















text \<open>
  Claim C2 (the code departs from it). Whatever the joined data holds, here rows of the banks
  A and B, lines 115-122 raise UnboundLocalError at the first read of \<open>final_df\<close> and leave
  the world as it was: no file is written. The transformer as a whole leaves the object store
  as it found it.
\<close>

theorem bank_files_never_written:
  "write_bank_files example_env joined_two_banks (start_world Map.empty)
     = (Inl (UnboundLocalError ''final_df''), start_world Map.empty)
   \<and> s3 (snd (transform_monthly_data example_env (SessionV SparkSession) (StrV ''Loan'')
               (start_world Map.empty))) = Map.empty"
proof -
  from transform_monthly_data_effect[of example_env "SessionV SparkSession" "StrV ''Loan''"
      "start_world Map.empty"]
  have "s3 (snd (transform_monthly_data example_env (SessionV SparkSession) (StrV ''Loan'')
               (start_world Map.empty))) = Map.empty"
    by (auto simp: start_world_def)
  then show ?thesis by (simp add: write_bank_files_raises)
qed


text \<open>
  Claim C4 (the code departs from it). On a frame as pyspark has it, the \<^verbatim>\<open>with\<close> statement of
  lines 59-66 raises once the load has returned, so lines 68-74 do not run: whatever the
  table, the window and the state, the extraction ends with an error, the only call it makes
  is the JDBC load, and the object store is left as it was; no object is written to the
  landing path, so a second run has nothing to replace. When the load has returned a frame,
  the error is the one of the \<^verbatim>\<open>with\<close> statement, logged with the table name and raised
  again.
\<close>

theorem landing_object_never_written:
  assumes "dataframe_with_error env = Some err"
  shows "(\<exists>raised. fst (extract_monthly_data env sp props t s e \<sigma>) = Inl raised)
     \<and> s3 (snd (extract_monthly_data env sp props t s e \<sigma>)) = s3 \<sigma>
     \<and> calls (snd (extract_monthly_data env sp props t s e \<sigma>))
         = calls \<sigma> @ [JdbcLoadCall props \<lparr>from_table = t, date_from = s, date_before = e\<rparr>]
     \<and> (\<forall>df. jdbc_result env props \<lparr>from_table = t, date_from = s, date_before = e\<rparr> = Inr df \<longrightarrow>
           extract_monthly_data env sp props t s e \<sigma>
             = (Inl err,
                \<sigma>\<lparr>logged := logged \<sigma> @
                     [Info (''Starting data extraction process for table: '' @ t),
                      Error (''An error occurred during data extraction for table: '' @ t),
                      Exception err,
                      Info (''Data extraction process completed for table: '' @ t)],
                   calls := calls \<sigma> @ [JdbcLoadCall props \<lparr>from_table = t, date_from = s, date_before = e\<rparr>]\<rparr>))"
proof -
  have loaded: "extract_monthly_data env sp props t s e \<sigma>
             = (Inl err,
                \<sigma>\<lparr>logged := logged \<sigma> @
                     [Info (''Starting data extraction process for table: '' @ t),
                      Error (''An error occurred during data extraction for table: '' @ t),
                      Exception err,
                      Info (''Data extraction process completed for table: '' @ t)],
                   calls := calls \<sigma> @ [JdbcLoadCall props \<lparr>from_table = t, date_from = s, date_before = e\<rparr>]\<rparr>)"
    if "jdbc_result env props \<lparr>from_table = t, date_from = s, date_before = e\<rparr> = Inr df" for df
    by (rule extract_with_fails[OF that assms])
  have "(\<exists>raised. fst (extract_monthly_data env sp props t s e \<sigma>) = Inl raised)
     \<and> s3 (snd (extract_monthly_data env sp props t s e \<sigma>)) = s3 \<sigma>
     \<and> calls (snd (extract_monthly_data env sp props t s e \<sigma>))
         = calls \<sigma> @ [JdbcLoadCall props \<lparr>from_table = t, date_from = s, date_before = e\<rparr>]"
  proof (cases "jdbc_result env props \<lparr>from_table = t, date_from = s, date_before = e\<rparr>")
    case (Inl load_error)
    show ?thesis unfolding extract_load_fails[OF Inl] by simp
  next
    case (Inr df)
    show ?thesis unfolding loaded[OF Inr] by simp
  qed
  with loaded show ?thesis by (intro conjI allI impI) simp_all
qed

theorem landing_object_never_written_witness:
  "dataframe_with_error pyspark_env = Some (AttributeError ''__enter__'')
   \<and> jdbc_result pyspark_env example_properties
        \<lparr>from_table = ''Loan'', date_from = Date 2026 11 1, date_before = Date 2026 11 30\<rparr>
       = Inr (example_table\<lparr>rows := [[DateV (Date 2026 11 1), Str ''100''],
                                       [DateV (Date 2026 11 29), Str ''250'']]\<rparr>)
   \<and> extract_monthly_data pyspark_env SparkSession example_properties ''Loan''
      (Date 2026 11 1) (Date 2026 11 30) (start_world Map.empty)
     = (Inl (AttributeError ''__enter__''),
        \<lparr>logged = [Info ''Starting data extraction process for table: Loan'',
                   Error ''An error occurred during data extraction for table: Loan'',
                   Exception (AttributeError ''__enter__''),
                   Info ''Data extraction process completed for table: Loan''],
         calls = [JdbcLoadCall example_properties
                    \<lparr>from_table = ''Loan'', date_from = Date 2026 11 1,
                       date_before = Date 2026 11 30\<rparr>],
         s3 = Map.empty\<rparr>)"
proof -
  have raises: "dataframe_with_error pyspark_env = Some (AttributeError ''__enter__'')"
    by (simp add: pyspark_env_def)
  have same: "jdbc_result pyspark_env props q = jdbc_result example_env props q" for props q
    by (simp add: jdbc_result_def pyspark_env_def)
  have loaded: "jdbc_result pyspark_env example_properties
        \<lparr>from_table = ''Loan'', date_from = Date 2026 11 1, date_before = Date 2026 11 30\<rparr>
       = Inr (example_table\<lparr>rows := [[DateV (Date 2026 11 1), Str ''100''],
                                       [DateV (Date 2026 11 29), Str ''250'']]\<rparr>)"
    unfolding same by (rule example_loan_query)
  from landing_object_never_written[OF raises, where props = example_properties and t = "''Loan''"
      and s = "Date 2026 11 1" and e = "Date 2026 11 30" and sp = SparkSession
      and \<sigma> = "start_world Map.empty"]
  have "\<forall>df. jdbc_result pyspark_env example_properties
          \<lparr>from_table = ''Loan'', date_from = Date 2026 11 1, date_before = Date 2026 11 30\<rparr> = Inr df \<longrightarrow>
           extract_monthly_data pyspark_env SparkSession example_properties ''Loan''
               (Date 2026 11 1) (Date 2026 11 30) (start_world Map.empty)
             = (Inl (AttributeError ''__enter__''),
                (start_world Map.empty)\<lparr>logged := logged (start_world Map.empty) @
                     [Info (''Starting data extraction process for table: '' @ ''Loan''),
                      Error (''An error occurred during data extraction for table: '' @ ''Loan''),
                      Exception (AttributeError ''__enter__''),
                      Info (''Data extraction process completed for table: '' @ ''Loan'')],
                   calls := calls (start_world Map.empty) @ [JdbcLoadCall example_properties
                      \<lparr>from_table = ''Loan'', date_from = Date 2026 11 1, date_before = Date 2026 11 30\<rparr>]\<rparr>)"
    by (elim conjE)
  from this[rule_format, OF loaded]
  have run: "extract_monthly_data pyspark_env SparkSession example_properties ''Loan''
      (Date 2026 11 1) (Date 2026 11 30) (start_world Map.empty)
     = (Inl (AttributeError ''__enter__''),
        \<lparr>logged = [Info ''Starting data extraction process for table: Loan'',
                   Error ''An error occurred during data extraction for table: Loan'',
                   Exception (AttributeError ''__enter__''),
                   Info ''Data extraction process completed for table: Loan''],
         calls = [JdbcLoadCall example_properties
                    \<lparr>from_table = ''Loan'', date_from = Date 2026 11 1,
                       date_before = Date 2026 11 30\<rparr>],
         s3 = Map.empty\<rparr>)"
    by (simp add: start_world_def)
  from raises loaded run show ?thesis by (intro conjI)
qed

text \<open>
  Claim C5. When the query, the \<^verbatim>\<open>with\<close> statement on the loaded frame or the write of a
  table's extraction fails with an error, the extractor logs "An error occurred during data extraction for table: <table>" and the error,
  then the completion line of the \<^verbatim>\<open>finally\<close> block, and raises the error again; the
  loop of lines 169-170 ends in that state with that error, whatever tables remain.
\<close>

theorem extraction_error_logged_and_loop_left:
  assumes fails:
      "jdbc_result env props \<lparr>from_table = t, date_from = s, date_before = e\<rparr> = Inl err
       \<or> (\<exists>df. jdbc_result env props \<lparr>from_table = t, date_from = s, date_before = e\<rparr> = Inr df
                \<and> dataframe_with_error env = Some err)
       \<or> (\<exists>df. jdbc_result env props \<lparr>from_table = t, date_from = s, date_before = e\<rparr> = Inr df
                \<and> dataframe_with_error env = None
                \<and> s3_write_error env (s3_output_path env t) = Some err)"
    and before: "extract_each env sp props s e before \<sigma> = (Inr (), \<sigma>1)"
  shows "\<exists>entries \<sigma>2.
           extract_monthly_data env sp props t s e \<sigma>1 = (Inl err, \<sigma>2)
         \<and> logged \<sigma>2 = logged \<sigma>1 @ entries @
               [Error (''An error occurred during data extraction for table: '' @ t),
                Exception err,
                Info (''Data extraction process completed for table: '' @ t)]
         \<and> extract_each env sp props s e (before @ t # remaining) \<sigma> = (Inl err, \<sigma>2)"
proof -
  have "\<exists>entries \<sigma>2. extract_monthly_data env sp props t s e \<sigma>1 = (Inl err, \<sigma>2)
      \<and> logged \<sigma>2 = logged \<sigma>1 @ entries @
               [Error (''An error occurred during data extraction for table: '' @ t),
                Exception err,
                Info (''Data extraction process completed for table: '' @ t)]"
  proof -
    consider
      (load_error) "jdbc_result env props \<lparr>from_table = t, date_from = s, date_before = e\<rparr> = Inl err"
    | (enter_error) df where "jdbc_result env props \<lparr>from_table = t, date_from = s, date_before = e\<rparr> = Inr df"
        "dataframe_with_error env = Some err"
    | (write_error) df where "jdbc_result env props \<lparr>from_table = t, date_from = s, date_before = e\<rparr> = Inr df"
        "dataframe_with_error env = None" "s3_write_error env (s3_output_path env t) = Some err"
      using fails by blast
    then show ?thesis
    proof cases
      case load_error
      show ?thesis
        unfolding extract_load_fails[OF load_error]
        by (intro exI[of _ "[Info (''Starting data extraction process for table: '' @ t)]"] exI conjI)
           (rule refl, simp)
    next
      case enter_error
      show ?thesis
        unfolding extract_with_fails[OF enter_error]
        by (intro exI[of _ "[Info (''Starting data extraction process for table: '' @ t)]"] exI conjI)
           (rule refl, simp)
    next
      case write_error
      show ?thesis
        unfolding extract_write_fails[OF write_error(2) write_error(1) write_error(3)]
        by (intro exI[of _ "[Info (''Starting data extraction process for table: '' @ t),
                  Info ''Data loaded successfully from Aurora.'']"] exI conjI)
           (rule refl, simp)
    qed
  qed
  then obtain entries \<sigma>2 where
    run: "extract_monthly_data env sp props t s e \<sigma>1 = (Inl err, \<sigma>2)"
    and lg: "logged \<sigma>2 = logged \<sigma>1 @ entries @
               [Error (''An error occurred during data extraction for table: '' @ t),
                Exception err,
                Info (''Data extraction process completed for table: '' @ t)]"
    by blast
  have "extract_each env sp props s e (before @ t # remaining) \<sigma> = (Inl err, \<sigma>2)"
    by (simp add: extract_each_append before run io_bind_def)
  with run lg show ?thesis by blast
qed

theorem extraction_error_logged_and_loop_left_witness:
  "jdbc_result failing_env example_properties
      \<lparr>from_table = ''Branch'', date_from = Date 2026 11 1, date_before = Date 2026 11 30\<rparr>
     = Inl (ExternalError ''connection refused'')
   \<and> fst (extract_each failing_env SparkSession example_properties (Date 2026 11 1) (Date 2026 11 30)
           [''Loan''] (start_world Map.empty)) = Inr ()
   \<and> fst (extract_each failing_env SparkSession example_properties (Date 2026 11 1) (Date 2026 11 30)
           [''Loan'', ''Branch'', ''Client''] (start_world Map.empty))
       = Inl (ExternalError ''connection refused'')
   \<and> fst (extract_each pyspark_env SparkSession example_properties (Date 2026 11 1) (Date 2026 11 30)
           [''Loan'', ''Branch''] (start_world Map.empty))
       = Inl (AttributeError ''__enter__'')"
proof -
  let ?s = "Date 2026 11 1" and ?e = "Date 2026 11 30" and ?w = "start_world Map.empty"
  have h1: "jdbc_result failing_env example_properties
      \<lparr>from_table = ''Branch'', date_from = ?s, date_before = ?e\<rparr>
     = Inl (ExternalError ''connection refused'')"
    by (simp add: jdbc_result_def sum_bind_def failing_env_def)
  have "\<exists>df. jdbc_result failing_env example_properties
      \<lparr>from_table = ''Loan'', date_from = ?s, date_before = ?e\<rparr> = Inr df"
    by (simp add: jdbc_result_def run_query_def example_resolve sum_bind_def failing_env_def)
  moreover have "s3_write_error failing_env p = None" for p
    by (simp add: failing_env_def example_env_def)
  moreover have "dataframe_with_error failing_env = None"
    by (simp add: failing_env_def example_env_def)
  ultimately have h2: "fst (extract_each failing_env SparkSession example_properties ?s ?e [''Loan''] ?w) = Inr ()"
    by (intro extract_each_all_succeed) simp_all
  then have eq: "extract_each failing_env SparkSession example_properties ?s ?e [''Loan''] ?w
      = (Inr (), snd (extract_each failing_env SparkSession example_properties ?s ?e [''Loan''] ?w))"
    by (simp add: prod_eq_iff)
  from extraction_error_logged_and_loop_left[OF disjI1[OF h1] eq, of "[''Client'']"]
  have "fst (extract_each failing_env SparkSession example_properties ?s ?e
           ([''Loan''] @ ''Branch'' # [''Client'']) ?w) = Inl (ExternalError ''connection refused'')"
    by force
  then have stand_in: "fst (extract_each failing_env SparkSession example_properties ?s ?e
           [''Loan'', ''Branch'', ''Client''] ?w) = Inl (ExternalError ''connection refused'')"
    by simp
  have loaded: "\<exists>df. jdbc_result pyspark_env example_properties
        \<lparr>from_table = ''Loan'', date_from = ?s, date_before = ?e\<rparr> = Inr df
      \<and> dataframe_with_error pyspark_env = Some (AttributeError ''__enter__'')"
    by (simp add: jdbc_result_def run_query_def example_resolve sum_bind_def pyspark_env_def
        example_env_def)
  have none_before: "extract_each pyspark_env SparkSession example_properties ?s ?e [] ?w = (Inr (), ?w)"
    by (simp add: io_return_def)
  from extraction_error_logged_and_loop_left[OF disjI2[OF disjI1[OF loaded]] none_before,
      of "[''Branch'']"]
  have "fst (extract_each pyspark_env SparkSession example_properties ?s ?e
           ([] @ ''Loan'' # [''Branch'']) ?w) = Inl (AttributeError ''__enter__'')"
    by force
  then have real: "fst (extract_each pyspark_env SparkSession example_properties ?s ?e
           [''Loan'', ''Branch''] ?w) = Inl (AttributeError ''__enter__'')"
    by simp
  from h1 h2 stand_in real show ?thesis by (intro conjI)
qed


text \<open>
  Claim C7. When the driver is started with no table name (the argument list has fewer than
  two entries), line 137 raises the ValueError "No table names provided as job parameters."
  after the single call that reads the arguments: no secret is fetched, no query is sent and
  no object is read or written. The handler of lines 177-179 then logs the error.
\<close>

theorem no_table_names_raises_first:
  assumes "glue_argv env = Inr args" and "length args < 2"
  shows "stage_data env \<sigma>
           = (Inl (ValueError ''No table names provided as job parameters.''),
              \<sigma>\<lparr>calls := calls \<sigma> @ [GlueContextCall]\<rparr>)
       \<and> main env \<sigma>
           = (Inr (), \<sigma>\<lparr>calls := calls \<sigma> @ [GlueContextCall],
                logged := logged \<sigma> @ [Error ''An unexpected error occurred.'',
                   Exception (ValueError ''No table names provided as job parameters.'')]\<rparr>)"
proof -
  have stage: "stage_data env \<sigma>
           = (Inl (ValueError ''No table names provided as job parameters.''),
              \<sigma>\<lparr>calls := calls \<sigma> @ [GlueContextCall]\<rparr>)"
    using assms by (simp add: stage_data_def io_bind_def external_def io_raise_def)
  then have "main env \<sigma>
           = (Inr (), \<sigma>\<lparr>calls := calls \<sigma> @ [GlueContextCall],
                logged := logged \<sigma> @ [Error ''An unexpected error occurred.'',
                   Exception (ValueError ''No table names provided as job parameters.'')]\<rparr>)"
    by (simp add: main_def main_body_def try_except_def io_bind_def logger_error_def logger_exception_def)
  with stage show ?thesis by simp
qed

theorem no_table_names_raises_first_witness:
  "glue_argv (example_env\<lparr>glue_argv := Inr [''etl.py'']\<rparr>) = Inr [''etl.py'']
   \<and> length [''etl.py''] < 2
   \<and> main (example_env\<lparr>glue_argv := Inr [''etl.py'']\<rparr>) (start_world Map.empty)
       = (Inr (), \<lparr>logged = [Error ''An unexpected error occurred.'',
                   Exception (ValueError ''No table names provided as job parameters.'')],
                  calls = [GlueContextCall], s3 = Map.empty\<rparr>)"
  using no_table_names_raises_first[of "example_env\<lparr>glue_argv := Inr [''etl.py'']\<rparr>" "[''etl.py'']" "start_world Map.empty"]
  by (simp add: start_world_def)

text \<open>
  Claim C8. When the join of lines 97-100 succeeds on five tables, the first of which has one
  cell per column in every row (as every table read by the transformer has), its rows are
  exactly the concatenations of one row of each table for which the four key equalities
  \<^verbatim>\<open>idBank = Bank_idBank\<close>, \<^verbatim>\<open>idBranch = Branch_idBranch\<close>, \<^verbatim>\<open>idClient = Client_idClient\<close> and
  \<^verbatim>\<open>idAccount = Account_idAccount\<close> hold between the first table's row and the others, a NULL
  key matching nothing. So every joined row has its match in all five tables, and a row
  without a match under one of the equalities is part of no joined row.
\<close>

theorem join_keeps_exactly_matching_rows:
  assumes joined: "join_tables df1 df2 df3 df4 df5 = Inr joined_df"
    and wf: "well_formed df1"
  shows "\<exists>idBank Bank_idBank idBranch Branch_idBranch idClient Client_idClient idAccount
           Account_idAccount.
      resolve (columns df1) ''idBank'' = Inr idBank
    \<and> resolve (columns df2) ''Bank_idBank'' = Inr Bank_idBank
    \<and> resolve (columns df1) ''idBranch'' = Inr idBranch
    \<and> resolve (columns df3) ''Branch_idBranch'' = Inr Branch_idBranch
    \<and> resolve (columns df1) ''idClient'' = Inr idClient
    \<and> resolve (columns df4) ''Client_idClient'' = Inr Client_idClient
    \<and> resolve (columns df1) ''idAccount'' = Inr idAccount
    \<and> resolve (columns df5) ''Account_idAccount'' = Inr Account_idAccount
    \<and> columns joined_df = columns df1 @ columns df2 @ columns df3 @ columns df4 @ columns df5
    \<and> set (rows joined_df) =
        {r1 @ r2 @ r3 @ r4 @ r5 | r1 r2 r3 r4 r5.
           r1 \<in> set (rows df1) \<and> r2 \<in> set (rows df2) \<and> r3 \<in> set (rows df3)
           \<and> r4 \<in> set (rows df4) \<and> r5 \<in> set (rows df5)
           \<and> sql_eq (cell_at r1 idBank) (cell_at r2 Bank_idBank)
           \<and> sql_eq (cell_at r1 idBranch) (cell_at r3 Branch_idBranch)
           \<and> sql_eq (cell_at r1 idClient) (cell_at r4 Client_idClient)
           \<and> sql_eq (cell_at r1 idAccount) (cell_at r5 Account_idAccount)}"
proof -
  from joined obtain idBank Bank_idBank idBranch Branch_idBranch idClient Client_idClient
      idAccount Account_idAccount where
    k: "resolve (columns df1) ''idBank'' = Inr idBank"
      "resolve (columns df2) ''Bank_idBank'' = Inr Bank_idBank"
      "resolve (columns df1) ''idBranch'' = Inr idBranch"
      "resolve (columns df3) ''Branch_idBranch'' = Inr Branch_idBranch"
      "resolve (columns df1) ''idClient'' = Inr idClient"
      "resolve (columns df4) ''Client_idClient'' = Inr Client_idClient"
      "resolve (columns df1) ''idAccount'' = Inr idAccount"
      "resolve (columns df5) ''Account_idAccount'' = Inr Account_idAccount"
    and j: "joined_df = inner_join
             (inner_join
               (inner_join
                 (inner_join df1 df2 (\<lambda>a b. sql_eq (cell_at a idBank) (cell_at b Bank_idBank)))
                 df3 (\<lambda>a b. sql_eq (cell_at a idBranch) (cell_at b Branch_idBranch)))
               df4 (\<lambda>a b. sql_eq (cell_at a idClient) (cell_at b Client_idClient)))
             df5 (\<lambda>a b. sql_eq (cell_at a idAccount) (cell_at b Account_idAccount))"
    by (auto simp: join_tables_def sum_bind_def split: sum.splits)
  have len: "r1 \<in> set (rows df1) \<Longrightarrow> idBranch < length r1 \<and> idClient < length r1 \<and> idAccount < length r1" for r1
    using wf resolve_bound[OF k(3)] resolve_bound[OF k(5)] resolve_bound[OF k(7)]
    by (auto simp: well_formed_def list_all_iff)
  have cols: "columns joined_df = columns df1 @ columns df2 @ columns df3 @ columns df4 @ columns df5"
    by (simp add: j columns_inner_join)
  have "set (rows joined_df) =
        {r1 @ r2 @ r3 @ r4 @ r5 | r1 r2 r3 r4 r5.
           r1 \<in> set (rows df1) \<and> r2 \<in> set (rows df2) \<and> r3 \<in> set (rows df3)
           \<and> r4 \<in> set (rows df4) \<and> r5 \<in> set (rows df5)
           \<and> sql_eq (cell_at r1 idBank) (cell_at r2 Bank_idBank)
           \<and> sql_eq (cell_at r1 idBranch) (cell_at r3 Branch_idBranch)
           \<and> sql_eq (cell_at r1 idClient) (cell_at r4 Client_idClient)
           \<and> sql_eq (cell_at r1 idAccount) (cell_at r5 Account_idAccount)}" (is "?L = ?R")
  proof (intro set_eqI iffI)
    fix r assume "r \<in> ?L"
    then obtain r1 r2 r3 r4 r5 where
      r: "r = (((r1 @ r2) @ r3) @ r4) @ r5"
      and m: "r1 \<in> set (rows df1)" "r2 \<in> set (rows df2)" "r3 \<in> set (rows df3)"
        "r4 \<in> set (rows df4)" "r5 \<in> set (rows df5)"
      and e: "sql_eq (cell_at r1 idBank) (cell_at r2 Bank_idBank)"
        "sql_eq (cell_at (r1 @ r2) idBranch) (cell_at r3 Branch_idBranch)"
        "sql_eq (cell_at ((r1 @ r2) @ r3) idClient) (cell_at r4 Client_idClient)"
        "sql_eq (cell_at (((r1 @ r2) @ r3) @ r4) idAccount) (cell_at r5 Account_idAccount)"
      unfolding j rows_inner_join by blast
    from len[OF m(1)] e have e': "sql_eq (cell_at r1 idBranch) (cell_at r3 Branch_idBranch)"
      "sql_eq (cell_at r1 idClient) (cell_at r4 Client_idClient)"
      "sql_eq (cell_at r1 idAccount) (cell_at r5 Account_idAccount)"
      by (simp_all add: cell_at_prefix)
    have "r = r1 @ r2 @ r3 @ r4 @ r5" by (simp add: r)
    with m e(1) e' show "r \<in> ?R" by blast
  next
    fix r assume "r \<in> ?R"
    then obtain r1 r2 r3 r4 r5 where
      r: "r = r1 @ r2 @ r3 @ r4 @ r5"
      and m: "r1 \<in> set (rows df1)" "r2 \<in> set (rows df2)" "r3 \<in> set (rows df3)"
        "r4 \<in> set (rows df4)" "r5 \<in> set (rows df5)"
      and e: "sql_eq (cell_at r1 idBank) (cell_at r2 Bank_idBank)"
        "sql_eq (cell_at r1 idBranch) (cell_at r3 Branch_idBranch)"
        "sql_eq (cell_at r1 idClient) (cell_at r4 Client_idClient)"
        "sql_eq (cell_at r1 idAccount) (cell_at r5 Account_idAccount)"
      by blast
    from len[OF m(1)] e have e': "sql_eq (cell_at (r1 @ r2) idBranch) (cell_at r3 Branch_idBranch)"
        "sql_eq (cell_at ((r1 @ r2) @ r3) idClient) (cell_at r4 Client_idClient)"
        "sql_eq (cell_at (((r1 @ r2) @ r3) @ r4) idAccount) (cell_at r5 Account_idAccount)"
      by (simp_all add: cell_at_prefix)
    have "(((r1 @ r2) @ r3) @ r4) @ r5 \<in> ?L"
      unfolding j rows_inner_join using m e(1) e' by blast
    then show "r \<in> ?L" by (simp add: r)
  qed
  with k cols show ?thesis by blast
qed

theorem join_keeps_exactly_matching_rows_witness:
  "well_formed example_loans
   \<and> join_tables example_loans example_banks example_branches example_clients example_accounts
     = Inr \<lparr>columns = [''idBank'', ''idBranch'', ''idClient'', ''idAccount'', ''Amount'',
                        ''Bank_idBank'', ''Name'', ''Branch_idBranch'', ''branch'',
                        ''Client_idClient'', ''Account_idAccount''],
             rows = [[Str ''1'', Str ''10'', Str ''100'', Str ''1000'', Str ''50'',
                      Str ''1'', Str ''A'', Str ''10'', Str ''North'', Str ''100'', Str ''1000'']]\<rparr>
   \<and> [''idBank'', ''idBranch'', ''idClient'', ''idAccount'', ''Amount'',
                        ''Bank_idBank'', ''Name'', ''Branch_idBranch'', ''branch'',
                        ''Client_idClient'', ''Account_idAccount'']
      = columns example_loans @ columns example_banks @ columns example_branches
          @ columns example_clients @ columns example_accounts"
proof -
  have wf: "well_formed example_loans"
    by (simp add: well_formed_def example_loans_def)
  from join_keeps_exactly_matching_rows[OF example_join wf]
  have "columns \<lparr>columns = [''idBank'', ''idBranch'', ''idClient'', ''idAccount'', ''Amount'',
                        ''Bank_idBank'', ''Name'', ''Branch_idBranch'', ''branch'',
                        ''Client_idClient'', ''Account_idAccount''],
             rows = [[Str ''1'', Str ''10'', Str ''100'', Str ''1000'', Str ''50'',
                      Str ''1'', Str ''A'', Str ''10'', Str ''North'', Str ''100'', Str ''1000'']]\<rparr>
      = columns example_loans @ columns example_banks @ columns example_branches
          @ columns example_clients @ columns example_accounts"
    by blast
  then show ?thesis using wf example_join by simp
qed

text \<open>
  Claim C9. Line 173 calls the transformer without arguments although line 84 requires two.
  So in every run the driver never stops the session and writes no object outside the landing
  paths of the extractor, in particular no transformed output, and it returns normally; and
  when staging (lines 134-170) has completed, the call raises the arity TypeError, which the
  handler of lines 177-179 logs.
\<close>

theorem transform_call_without_arguments:
  "(\<exists>cs. calls (snd (main env \<sigma>)) = calls \<sigma> @ cs
        \<and> SparkStopCall \<notin> set cs
        \<and> (\<forall>p. S3WriteCall p \<in> set cs \<longrightarrow> (\<exists>t. p = s3_output_path env t)))
   \<and> (\<forall>bank d. s3 (snd (main env \<sigma>)) (transform_output_path env bank d)
                 = s3 \<sigma> (transform_output_path env bank d))
   \<and> fst (main env \<sigma>) = Inr ()
   \<and> (\<forall>spark \<sigma>1. stage_data env \<sigma> = (Inr spark, \<sigma>1) \<longrightarrow>
         call_transform_monthly_data env [] \<sigma>1
           = (Inl (TypeError ''transform_monthly_data() missing 2 required positional arguments''), \<sigma>1)
         \<and> main env \<sigma>
           = (Inr (), \<sigma>1\<lparr>logged := logged \<sigma>1 @
                 [Error ''An unexpected error occurred.'',
                  Exception (TypeError ''transform_monthly_data() missing 2 required positional arguments'')]\<rparr>))"
proof (intro conjI allI impI)
  from effects_in_main[of env] obtain cs where cs: "calls (snd (main env \<sigma>)) = calls \<sigma> @ cs"
    "set cs \<subseteq> stage_calls env"
    "\<forall>p. S3WriteCall p \<notin> stage_calls env \<longrightarrow> s3 (snd (main env \<sigma>)) p = s3 \<sigma> p"
    unfolding effects_in_def by blast
  have "SparkStopCall \<notin> set cs" using cs(2) by (auto simp: stage_calls_def)
  moreover have "\<forall>p. S3WriteCall p \<in> set cs \<longrightarrow> (\<exists>t. p = s3_output_path env t)"
    using cs(2) by (auto simp: stage_calls_def)
  ultimately show "\<exists>cs. calls (snd (main env \<sigma>)) = calls \<sigma> @ cs
        \<and> SparkStopCall \<notin> set cs
        \<and> (\<forall>p. S3WriteCall p \<in> set cs \<longrightarrow> (\<exists>t. p = s3_output_path env t))"
    using cs(1) by blast
  fix bank d
  have "S3WriteCall (transform_output_path env bank d) \<notin> stage_calls env"
    using landing_not_transform by (auto simp: stage_calls_def dest: sym)
  then show "s3 (snd (main env \<sigma>)) (transform_output_path env bank d) = s3 \<sigma> (transform_output_path env bank d)"
    using cs(3) by blast
next
  show "fst (main env \<sigma>) = Inr ()"
    by (simp add: main_def try_except_def io_bind_def logger_error_def logger_exception_def
        split: prod.splits sum.splits)
next
  fix spark \<sigma>1
  show "call_transform_monthly_data env [] \<sigma>1
           = (Inl (TypeError ''transform_monthly_data() missing 2 required positional arguments''), \<sigma>1)"
    by (simp add: call_without_arguments io_raise_def)
next
  fix spark \<sigma>1
  assume "stage_data env \<sigma> = (Inr spark, \<sigma>1)"
  then show "main env \<sigma>
           = (Inr (), \<sigma>1\<lparr>logged := logged \<sigma>1 @
                 [Error ''An unexpected error occurred.'',
                  Exception (TypeError ''transform_monthly_data() missing 2 required positional arguments'')]\<rparr>)"
    by (simp add: main_def main_body_def call_without_arguments try_except_def io_bind_def io_raise_def
        logger_error_def logger_exception_def)
qed

theorem transform_call_without_arguments_witness:
  "fst (stage_data example_env (start_world Map.empty)) = Inr SparkSession
   \<and> main example_env (start_world Map.empty)
       = (Inr (), (snd (stage_data example_env (start_world Map.empty)))
            \<lparr>logged := logged (snd (stage_data example_env (start_world Map.empty))) @
                 [Error ''An unexpected error occurred.'',
                  Exception (TypeError ''transform_monthly_data() missing 2 required positional arguments'')]\<rparr>)"
proof -
  have staged: "fst (stage_data example_env (start_world Map.empty)) = Inr SparkSession"
    by (rule example_stage)
  then have eq: "stage_data example_env (start_world Map.empty)
      = (Inr SparkSession, snd (stage_data example_env (start_world Map.empty)))"
    by (simp add: prod_eq_iff)
  from transform_call_without_arguments[of example_env "start_world Map.empty"]
  have "\<forall>spark \<sigma>1. stage_data example_env (start_world Map.empty) = (Inr spark, \<sigma>1) \<longrightarrow>
         call_transform_monthly_data example_env [] \<sigma>1
           = (Inl (TypeError ''transform_monthly_data() missing 2 required positional arguments''), \<sigma>1)
         \<and> main example_env (start_world Map.empty)
           = (Inr (), \<sigma>1\<lparr>logged := logged \<sigma>1 @
                 [Error ''An unexpected error occurred.'',
                  Exception (TypeError ''transform_monthly_data() missing 2 required positional arguments'')]\<rparr>)"
    by (elim conjE)
  from this[rule_format, OF eq] staged show ?thesis
    by (intro conjI) (assumption, elim conjE, assumption)
qed

text \<open>
  Claim C10. Whatever the date windows of two extraction calls for the same table, each call
  sends its own query and writes to no path but one: the landing path made of the table name
  and of the year-month of the import-time clock. The write is made when the load has returned
  a frame and the \<^verbatim>\<open>with\<close> statement has let the body run; on a frame as pyspark has it no
  write is made for either window.
\<close>

theorem landing_path_ignores_date_window:
  "calls (snd (extract_monthly_data env sp props t s1 e1 \<sigma>))
     = calls \<sigma> @ JdbcLoadCall props \<lparr>from_table = t, date_from = s1, date_before = e1\<rparr>
         # (case jdbc_result env props \<lparr>from_table = t, date_from = s1, date_before = e1\<rparr> of
              Inl err \<Rightarrow> []
            | Inr df \<Rightarrow>
                (case dataframe_with_error env of
                   Some err \<Rightarrow> []
                 | None \<Rightarrow> [S3WriteCall (''s3a://banking_data/bronze/'' @ t @ ''/''
                              @ strftime_Ym (import_now env) @ ''/'' @ t
                              @ ''_monthly_data_extract.csv'')]))
   \<and> calls (snd (extract_monthly_data env sp' props' t s2 e2 \<sigma>'))
     = calls \<sigma>' @ JdbcLoadCall props' \<lparr>from_table = t, date_from = s2, date_before = e2\<rparr>
         # (case jdbc_result env props' \<lparr>from_table = t, date_from = s2, date_before = e2\<rparr> of
              Inl err \<Rightarrow> []
            | Inr df \<Rightarrow>
                (case dataframe_with_error env of
                   Some err \<Rightarrow> []
                 | None \<Rightarrow> [S3WriteCall (''s3a://banking_data/bronze/'' @ t @ ''/''
                              @ strftime_Ym (import_now env) @ ''/'' @ t
                              @ ''_monthly_data_extract.csv'')]))"
proof -
  have path: "s3_output_path env t = ''s3a://banking_data/bronze/'' @ t @ ''/''
                @ strftime_Ym (import_now env) @ ''/'' @ t @ ''_monthly_data_extract.csv''"
    by (simp add: s3_output_path_def s3_base_path_def landing_def year_month_def)
  have run: "calls (snd (extract_monthly_data env sp0 props0 t s e \<sigma>0))
     = calls \<sigma>0 @ JdbcLoadCall props0 \<lparr>from_table = t, date_from = s, date_before = e\<rparr>
         # (case jdbc_result env props0 \<lparr>from_table = t, date_from = s, date_before = e\<rparr> of
              Inl err \<Rightarrow> []
            | Inr df \<Rightarrow>
                (case dataframe_with_error env of
                   Some err \<Rightarrow> []
                 | None \<Rightarrow> [S3WriteCall (s3_output_path env t)]))" for sp0 props0 s e \<sigma>0
  proof (cases "jdbc_result env props0 \<lparr>from_table = t, date_from = s, date_before = e\<rparr>")
    case (Inl err)
    show ?thesis unfolding extract_load_fails[OF Inl] Inl by simp
  next
    case (Inr df)
    show ?thesis
    proof (cases "dataframe_with_error env")
      case (Some err)
      show ?thesis unfolding extract_with_fails[OF Inr Some] Inr Some by simp
    next
      case None
      show ?thesis
      proof (cases "s3_write_error env (s3_output_path env t)")
        case (Some err)
        show ?thesis unfolding extract_write_fails[OF None Inr Some] Inr None by simp
      next
        case no_error: None
        show ?thesis unfolding extract_succeeds[OF None Inr no_error] Inr None by simp
      qed
    qed
  qed
  show ?thesis
    using run[of sp props s1 e1 \<sigma>] run[of sp' props' s2 e2 \<sigma>'] unfolding path by (intro conjI)
qed

theorem landing_path_ignores_date_window_witness:
  "calls (snd (extract_monthly_data pyspark_env SparkSession example_properties ''Loan''
          (Date 2026 11 1) (Date 2026 11 30) (start_world Map.empty)))
       = [JdbcLoadCall example_properties
            \<lparr>from_table = ''Loan'', date_from = Date 2026 11 1, date_before = Date 2026 11 30\<rparr>]
   \<and> calls (snd (extract_monthly_data pyspark_env SparkSession example_properties ''Loan''
          (Date 2025 2 1) (Date 2025 2 28) (start_world Map.empty)))
       = [JdbcLoadCall example_properties
            \<lparr>from_table = ''Loan'', date_from = Date 2025 2 1, date_before = Date 2025 2 28\<rparr>]
   \<and> calls (snd (extract_monthly_data example_env SparkSession example_properties ''Loan''
          (Date 2026 11 1) (Date 2026 11 30) (start_world Map.empty)))
       = [JdbcLoadCall example_properties
            \<lparr>from_table = ''Loan'', date_from = Date 2026 11 1, date_before = Date 2026 11 30\<rparr>,
          S3WriteCall ''s3a://banking_data/bronze/Loan/202611/Loan_monthly_data_extract.csv'']
   \<and> calls (snd (extract_monthly_data example_env SparkSession example_properties ''Loan''
          (Date 2025 2 1) (Date 2025 2 28) (start_world Map.empty)))
       = [JdbcLoadCall example_properties
            \<lparr>from_table = ''Loan'', date_from = Date 2025 2 1, date_before = Date 2025 2 28\<rparr>,
          S3WriteCall ''s3a://banking_data/bronze/Loan/202611/Loan_monthly_data_extract.csv'']"
proof -
  have ym: "strftime_Ym (import_now example_env) = ''202611''"
    using example_year_month by (simp add: year_month_def)
  have loaded: "\<exists>df. jdbc_result example_env example_properties
        \<lparr>from_table = ''Loan'', date_from = s, date_before = e\<rparr> = Inr df" for s e
    by (rule example_jdbc)
  have loaded': "\<exists>df. jdbc_result pyspark_env example_properties
        \<lparr>from_table = ''Loan'', date_from = s, date_before = e\<rparr> = Inr df" for s e
    by (simp add: jdbc_result_def run_query_def example_resolve sum_bind_def pyspark_env_def
        example_env_def)
  have modes: "dataframe_with_error example_env = None"
    "dataframe_with_error pyspark_env = Some (AttributeError ''__enter__'')"
    by (simp_all add: pyspark_env_def example_env_def)
  obtain d1 d2 d3 d4 where d:
    "jdbc_result example_env example_properties
        \<lparr>from_table = ''Loan'', date_from = Date 2026 11 1, date_before = Date 2026 11 30\<rparr> = Inr d1"
    "jdbc_result example_env example_properties
        \<lparr>from_table = ''Loan'', date_from = Date 2025 2 1, date_before = Date 2025 2 28\<rparr> = Inr d2"
    "jdbc_result pyspark_env example_properties
        \<lparr>from_table = ''Loan'', date_from = Date 2026 11 1, date_before = Date 2026 11 30\<rparr> = Inr d3"
    "jdbc_result pyspark_env example_properties
        \<lparr>from_table = ''Loan'', date_from = Date 2025 2 1, date_before = Date 2025 2 28\<rparr> = Inr d4"
    using loaded loaded' by metis
  from landing_path_ignores_date_window[of pyspark_env SparkSession example_properties "''Loan''"
      "Date 2026 11 1" "Date 2026 11 30" "start_world Map.empty"
      SparkSession example_properties "Date 2025 2 1" "Date 2025 2 28" "start_world Map.empty"]
  have real: "calls (snd (extract_monthly_data pyspark_env SparkSession example_properties ''Loan''
          (Date 2026 11 1) (Date 2026 11 30) (start_world Map.empty)))
       = [JdbcLoadCall example_properties
            \<lparr>from_table = ''Loan'', date_from = Date 2026 11 1, date_before = Date 2026 11 30\<rparr>]"
    "calls (snd (extract_monthly_data pyspark_env SparkSession example_properties ''Loan''
          (Date 2025 2 1) (Date 2025 2 28) (start_world Map.empty)))
       = [JdbcLoadCall example_properties
            \<lparr>from_table = ''Loan'', date_from = Date 2025 2 1, date_before = Date 2025 2 28\<rparr>]"
    unfolding d modes by (simp_all add: start_world_def)
  from landing_path_ignores_date_window[of example_env SparkSession example_properties "''Loan''"
      "Date 2026 11 1" "Date 2026 11 30" "start_world Map.empty"
      SparkSession example_properties "Date 2025 2 1" "Date 2025 2 28" "start_world Map.empty"]
  have stand_in: "calls (snd (extract_monthly_data example_env SparkSession example_properties ''Loan''
          (Date 2026 11 1) (Date 2026 11 30) (start_world Map.empty)))
       = [JdbcLoadCall example_properties
            \<lparr>from_table = ''Loan'', date_from = Date 2026 11 1, date_before = Date 2026 11 30\<rparr>,
          S3WriteCall ''s3a://banking_data/bronze/Loan/202611/Loan_monthly_data_extract.csv'']"
    "calls (snd (extract_monthly_data example_env SparkSession example_properties ''Loan''
          (Date 2025 2 1) (Date 2025 2 28) (start_world Map.empty)))
       = [JdbcLoadCall example_properties
            \<lparr>from_table = ''Loan'', date_from = Date 2025 2 1, date_before = Date 2025 2 28\<rparr>,
          S3WriteCall ''s3a://banking_data/bronze/Loan/202611/Loan_monthly_data_extract.csv'']"
    unfolding d modes ym by (simp_all add: start_world_def)
  from real stand_in show ?thesis by (intro conjI)
qed

end
